theory Spec2Isabelle
  imports Complex_Main
begin

section \<open>Constrained Monte Carlo integrator (src/simulate/cmc.cpp)\<close>

text \<open>
  The integrator is embedded over the reals: a C++ \<open>double\<close> is a \<open>real\<close> and rounding,
  overflow and underflow are left out. IEEE-754 division does not trap, so the three divisions of
  \<open>ConstrainedMonteCarlo\<close> whose divisor can be zero (lines 232, 280 and 370) are
  modelled with the special values they produce instead of HOL's \<open>x / 0 = 0\<close>.
\<close>

subsection \<open>Doubles with the IEEE-754 special values\<close>

text \<open>
  \<open>Num x\<close> is a finite double. A zero is taken as \<open>+0.0\<close>; the only quotient of line 370
  with a possibly zero divisor of either sign, \<open>Mz_new/Mz_old\<close>, is squared.
\<close>

datatype double = Num real | PInf | NInf | NaN

definition inf_of_sign :: "real \<Rightarrow> double" where
  "inf_of_sign s = (if 0 < s then PInf else if s < 0 then NInf else NaN)"

fun fp_sgn :: "double \<Rightarrow> real" where
  "fp_sgn (Num a) = sgn a"
| "fp_sgn PInf = 1"
| "fp_sgn NInf = - 1"
| "fp_sgn NaN = 0"

fun fp_mul :: "double \<Rightarrow> double \<Rightarrow> double" where
  "fp_mul NaN y = NaN"
| "fp_mul x NaN = NaN"
| "fp_mul (Num a) (Num b) = Num (a * b)"
| "fp_mul x y = inf_of_sign (fp_sgn x * fp_sgn y)"

fun fp_div :: "double \<Rightarrow> double \<Rightarrow> double" where
  "fp_div NaN y = NaN"
| "fp_div x NaN = NaN"
| "fp_div (Num a) (Num b) = (if b = 0 then inf_of_sign a else Num (a / b))"
| "fp_div (Num a) y = Num 0"
| "fp_div x (Num b) = inf_of_sign (fp_sgn x * (if b < 0 then - 1 else 1))"
| "fp_div x y = NaN"

text \<open>
  The exponential of a finite double is taken as its real value, which is never zero. In
  the code it is \<open>0.0\<close> for an argument below about \<open>-745\<close>. That is rounding wherever
  the other factors of line 370 are finite; where one is an infinity (\<open>Mz_old = 0\<close>) the
  code has \<open>0.0 * inf\<close>, a NaN, and what is proved of that case is proved for arguments
  of at least \<open>-700\<close> only.
\<close>

fun fp_exp :: "double \<Rightarrow> double" where
  "fp_exp (Num a) = Num (exp a)"
| "fp_exp PInf = PInf"
| "fp_exp NInf = Num 0"
| "fp_exp NaN = NaN"

fun fp_fabs :: "double \<Rightarrow> double" where
  "fp_fabs (Num a) = Num \<bar>a\<bar>"
| "fp_fabs PInf = PInf"
| "fp_fabs NInf = PInf"
| "fp_fabs NaN = NaN"

text \<open>\<open>p >= u\<close> for a finite \<open>u\<close>: every comparison with a NaN is false.\<close>

fun fp_ge :: "double \<Rightarrow> real \<Rightarrow> bool" where
  "fp_ge (Num a) u = (u \<le> a)"
| "fp_ge PInf u = True"
| "fp_ge NInf u = False"
| "fp_ge NaN u = False"

subsection \<open>The helpers of vmath.hpp\<close>

type_synonym matrix = "real list list"

text \<open>
  Modelled from the spec: \<open>vmath::set_matrix\<close>, \<open>vmath::matmul\<close>, \<open>vmath::transpose\<close> and
  \<open>vmath::sign\<close> are declared in vmath.hpp, which is not part of the sources. The spec
  (4.1, 4.5, 9) has \<open>R = R_y \<cdot> R_z\<close> the matrix product, \<open>R\<^sup>T = transpose(R)\<close>,
  \<open>c = z \<cdot> R\<close> the third row of \<open>R\<close>, and \<open>sign(0) = +1\<close>.
\<close>

definition set_matrix :: "nat \<Rightarrow> nat \<Rightarrow> real list \<Rightarrow> matrix" where
  "set_matrix rows cols v = map (\<lambda>i. take cols (drop (i * cols) v)) [0..<rows]"

definition num_cols :: "matrix \<Rightarrow> nat" where
  "num_cols A = (case A of [] \<Rightarrow> 0 | r # _ \<Rightarrow> length r)"

definition matmul :: "matrix \<Rightarrow> matrix \<Rightarrow> matrix" where
  "matmul A B =
     map (\<lambda>row. map (\<lambda>j. sum_list (map (\<lambda>k. row ! k * B ! k ! j) [0..<length B]))
                    [0..<num_cols B]) A"

definition transpose_matrix :: "matrix \<Rightarrow> matrix" where
  "transpose_matrix A = map (\<lambda>j. map (\<lambda>row. row ! j) A) [0..<num_cols A]"

definition sign :: "real \<Rightarrow> real" where
  "sign a = (if a < 0 then - 1 else 1)"

subsection \<open>cmc::polar_rot_matrix (lines 65-145)\<close>

text \<open>
  The nine assignments to each rotation matrix are written as the matrix they build,
  \<open>m[i][j]\<close> being row \<open>i\<close>, column \<open>j\<close>. The result is the triple of the out-parameters
  \<open>(polar_matrix, polar_matrix_tp, polar_vector)\<close>.
\<close>

definition polar_rot_matrix :: "real \<Rightarrow> real \<Rightarrow> matrix \<times> matrix \<times> matrix" where
  "polar_rot_matrix phi theta =
    (let pi = 3.14159265358979323846264338327;
         ddx = 0; ddy = phi; ddz = theta;
         dx = (ddx / 360) * 2 * pi;
         dy = (ddy / 360) * 2 * pi;
         dz = (ddz / 360) * 2 * pi;
         reference_vector = [0, 0, 1];
         sin_x = sin dx; cos_x = cos dx;
         sin_y = sin dy; cos_y = cos dy;
         sin_z = sin dz; cos_z = cos dz;
         ref_vec = set_matrix 1 3 reference_vector;
         x_rotation_matrix = [[1, 0, 0], [0, cos_x, sin_x], [0, - sin_x, cos_x]];
         y_rotation_matrix = [[cos_y, 0, - sin_y], [0, 1, 0], [sin_y, 0, cos_y]];
         z_rotation_matrix = [[cos_z, sin_z, 0], [- sin_z, cos_z, 0], [0, 0, 1]];
         polar_matrix = matmul y_rotation_matrix z_rotation_matrix;
         polar_matrix_tp = transpose_matrix polar_matrix;
         polar_vector = matmul ref_vec polar_matrix
     in (polar_matrix, polar_matrix_tp, polar_vector))"

subsection \<open>State\<close>

text \<open>
  The globals the integrator writes: the three spin arrays and the thermal-field flag of
  the other modules, and the statistics, flag and matrices of namespace \<open>cmc\<close>.
\<close>

record cmc_state =
  x_spin_array :: "real list"
  y_spin_array :: "real list"
  z_spin_array :: "real list"
  hamiltonian_simulation_flags :: "int list"
  mc_success :: real
  mc_total :: real
  sphere_reject :: real
  energy_reject :: real
  is_initialised :: bool
  polar_vector :: matrix
  polar_matrix_tp :: matrix
  polar_matrix :: matrix

text \<open>
  What the integrator only reads, all of it declared in headers that are not part of the
  sources and so taken as parameters: the number of atoms, the material of each atom and
  its moment, the temperature and the constraint angles, the energy of one spin against
  the current spin arrays (\<open>sim::calculate_spin_energy\<close>), and the two random streams of
  \<open>mtrandom\<close>, which step a generator state of type \<open>'r\<close>.
\<close>

record 'r env =
  num_atoms :: int
  type_array :: "nat \<Rightarrow> nat"
  mu_s_SI :: "nat \<Rightarrow> real"
  temperature :: real
  constraint_phi :: real
  constraint_theta :: real
  calculate_spin_energy :: "real list \<Rightarrow> real list \<Rightarrow> real list \<Rightarrow> nat \<Rightarrow> real"
  grnd :: "'r \<Rightarrow> real \<times> 'r"
  gaussian :: "'r \<Rightarrow> real \<times> 'r"

text \<open>An index outside an array is undefined behaviour in C++; the model stops there.\<close>

datatype fault = Out_of_bounds

type_synonym vec3 = "real \<times> real \<times> real"

definition in_bounds :: "cmc_state \<Rightarrow> int \<Rightarrow> bool" where
  "in_bounds st a \<longleftrightarrow>
     0 \<le> a \<and> nat a < length (x_spin_array st) \<and> nat a < length (y_spin_array st)
       \<and> nat a < length (z_spin_array st)"

definition get_spin :: "cmc_state \<Rightarrow> nat \<Rightarrow> vec3" where
  "get_spin st a = (x_spin_array st ! a, y_spin_array st ! a, z_spin_array st ! a)"

definition set_spin :: "cmc_state \<Rightarrow> nat \<Rightarrow> vec3 \<Rightarrow> cmc_state" where
  "set_spin st a s =
     (case s of (s0, s1, s2) \<Rightarrow>
        st\<lparr>x_spin_array := (x_spin_array st)[a := s0],
           y_spin_array := (y_spin_array st)[a := s1],
           z_spin_array := (z_spin_array st)[a := s2]\<rparr>)"

definition spin_energy :: "'r env \<Rightarrow> cmc_state \<Rightarrow> nat \<Rightarrow> real" where
  "spin_energy env st a =
     calculate_spin_energy env (x_spin_array st) (y_spin_array st) (z_spin_array st) a"

text \<open>\<open>int(x)\<close> truncates towards zero.\<close>

definition int_of_double :: "real \<Rightarrow> int" where
  "int_of_double x = (if 0 \<le> x then \<lfloor>x\<rfloor> else \<lceil>x\<rceil>)"

subsection \<open>sim::CMCinit (lines 158-183)\<close>

definition M_PI :: real where
  "M_PI = 3.14159265358979323846"

definition fill :: "nat \<Rightarrow> real \<Rightarrow> real list \<Rightarrow> real list" where
  "fill n v xs = fold (\<lambda>atom ys. ys[atom := v]) [0..<n] xs"

definition CMCinit :: "'r env \<Rightarrow> cmc_state \<Rightarrow> fault + cmc_state" where
  "CMCinit env st =
    (case polar_rot_matrix (constraint_phi env) (constraint_theta env) of
       (pm, pm_tp, pv) \<Rightarrow>
      let sx = sin (constraint_phi env * M_PI / 180) * cos (constraint_theta env * M_PI / 180);
          sy = sin (constraint_phi env * M_PI / 180) * sin (constraint_theta env * M_PI / 180);
          sz = cos (constraint_phi env * M_PI / 180);
          n = nat (num_atoms env)
      in if length (x_spin_array st) < n \<or> length (y_spin_array st) < n
            \<or> length (z_spin_array st) < n \<or> length (hamiltonian_simulation_flags st) \<le> 3
         then Inl Out_of_bounds
         else Inr (st\<lparr>polar_matrix := pm, polar_matrix_tp := pm_tp, polar_vector := pv,
                      x_spin_array := fill n sx (x_spin_array st),
                      y_spin_array := fill n sy (y_spin_array st),
                      z_spin_array := fill n sz (z_spin_array st),
                      hamiltonian_simulation_flags := (hamiltonian_simulation_flags st)[3 := 0],
                      is_initialised := True\<rparr>))"

subsection \<open>One trial pair-move: the body of the loop (lines 261-400)\<close>

text \<open>The matrix-vector products written out at lines 271-273, 287-289, 319-321, 332-334.\<close>

definition mvmul :: "matrix \<Rightarrow> vec3 \<Rightarrow> vec3" where
  "mvmul m v =
     (case v of (v0, v1, v2) \<Rightarrow>
        (m ! 0 ! 0 * v0 + m ! 0 ! 1 * v1 + m ! 0 ! 2 * v2,
         m ! 1 ! 0 * v0 + m ! 1 ! 1 * v1 + m ! 1 ! 2 * v2,
         m ! 2 ! 0 * v0 + m ! 2 ! 1 * v1 + m ! 2 ! 2 * v2))"

text \<open>
  Lines 262-306: pick the first atom, move its spin by a Gaussian step, normalise, write
  the new spin to the arrays and take the energy difference. \<open>spin1_norm2\<close> is the
  argument of the square root at line 280. When it is zero, \<open>sqrt_ran\<close> is \<open>+inf\<close> and
  the three components of \<open>spin1_final\<close> are \<open>0 * inf\<close>, a NaN; the reals recorded here
  for that case stand for values that every path then discards (see \<open>trial\<close>).
\<close>

record move1 =
  atom_number1 :: nat
  imat1 :: nat
  spin1_initial :: vec3
  spin1_init_mvd :: vec3
  spin1_norm2 :: real
  spin1_final :: vec3
  spin1_fin_mvd :: vec3
  delta_energy1 :: real

definition first_move ::
  "'r env \<Rightarrow> matrix \<Rightarrow> cmc_state \<Rightarrow> 'r \<Rightarrow> fault + (move1 \<times> cmc_state \<times> 'r)" where
  "first_move env ppolar_matrix st r =
    (case grnd env r of (u, r1) \<Rightarrow>
     let a = int_of_double (u * real_of_int (num_atoms env)) in
     if \<not> in_bounds st a then Inl Out_of_bounds
     else
       let atom = nat a;
           s1i = get_spin st atom
       in case gaussian env r1 of (g0, r2) \<Rightarrow>
          case gaussian env r2 of (g1, r3) \<Rightarrow>
          case gaussian env r3 of (g2, r4) \<Rightarrow>
       let t0 = g0 + x_spin_array st ! atom;
           t1 = g1 + y_spin_array st ! atom;
           t2 = g2 + z_spin_array st ! atom;
           n2 = t0 * t0 + t1 * t1 + t2 * t2;
           sqrt_ran = 1 / sqrt n2;
           s1f = (t0 * sqrt_ran, t1 * sqrt_ran, t2 * sqrt_ran);
           Eold = spin_energy env st atom;
           st1 = set_spin st atom s1f;
           Enew = spin_energy env st1 atom
       in Inr (\<lparr>atom_number1 = atom,
                imat1 = type_array env atom,
                spin1_initial = s1i,
                spin1_init_mvd = mvmul ppolar_matrix s1i,
                spin1_norm2 = n2,
                spin1_final = s1f,
                spin1_fin_mvd = mvmul ppolar_matrix s1f,
                delta_energy1 =
                  (Enew - Eold) * mu_s_SI env (type_array env atom) * (1.07828231 * 10 ^ 23)\<rparr>,
               st1, r4))"

text \<open>
  Lines 310-325: pick the second atom and compute the two in-plane components of its new
  spin in the constraint frame. \<open>spin2_fin_mvd01\<close> holds \<open>spin2_fin_mvd[0]\<close> and \<open>[1]\<close>.
\<close>

record move2 =
  atom_number2 :: nat
  imat2 :: nat
  spin2_initial :: vec3
  spin2_init_mvd :: vec3
  spin2_fin_mvd01 :: "real \<times> real"

definition second_move ::
  "'r env \<Rightarrow> matrix \<Rightarrow> move1 \<Rightarrow> cmc_state \<Rightarrow> 'r \<Rightarrow> fault + (move2 \<times> 'r)" where
  "second_move env ppolar_matrix m1 st1 r =
    (case grnd env r of (u, r1) \<Rightarrow>
     let a = int_of_double (u * real_of_int (num_atoms env)) in
     if \<not> in_bounds st1 a then Inl Out_of_bounds
     else
       let atom = nat a;
           s2i = get_spin st1 atom;
           s2i_mvd = mvmul ppolar_matrix s2i
       in Inr (\<lparr>atom_number2 = atom,
                imat2 = type_array env atom,
                spin2_initial = s2i,
                spin2_init_mvd = s2i_mvd,
                spin2_fin_mvd01 =
                  (fst (spin1_init_mvd m1) + fst s2i_mvd - fst (spin1_fin_mvd m1),
                   fst (snd (spin1_init_mvd m1)) + fst (snd s2i_mvd)
                     - fst (snd (spin1_fin_mvd m1)))\<rparr>,
               r1))"

text \<open>The left operand of the test at line 327.\<close>

definition in_plane2 :: "move2 \<Rightarrow> real" where
  "in_plane2 m2 =
     fst (spin2_fin_mvd01 m2) * fst (spin2_fin_mvd01 m2)
       + snd (spin2_fin_mvd01 m2) * snd (spin2_fin_mvd01 m2)"

text \<open>
  Lines 329-362: the third component of the new second spin, the spin in the lab frame,
  its energy difference, and the magnetisation along the constraint before and after.
\<close>

record pair =
  spin2_fin_mvd :: vec3
  spin2_final :: vec3
  delta_energy2 :: real
  delta_energy21 :: real
  Mz_old :: real
  Mz_new :: real

definition vadd :: "vec3 \<Rightarrow> vec3 \<Rightarrow> vec3" where
  "vadd a b = (case a of (a0, a1, a2) \<Rightarrow> case b of (b0, b1, b2) \<Rightarrow> (a0 + b0, a1 + b1, a2 + b2))"

definition vsub :: "vec3 \<Rightarrow> vec3 \<Rightarrow> vec3" where
  "vsub a b = (case a of (a0, a1, a2) \<Rightarrow> case b of (b0, b1, b2) \<Rightarrow> (a0 - b0, a1 - b1, a2 - b2))"

definition vdot :: "vec3 \<Rightarrow> vec3 \<Rightarrow> real" where
  "vdot a b = (case a of (a0, a1, a2) \<Rightarrow> case b of (b0, b1, b2) \<Rightarrow> a0 * b0 + a1 * b1 + a2 * b2)"

text \<open>\<open>M_other + spin1_final + spin2_final - spin1_initial - spin2_initial\<close> (lines 360-362, 372-374).\<close>

definition M_moved :: "vec3 \<Rightarrow> move1 \<Rightarrow> move2 \<Rightarrow> vec3 \<Rightarrow> vec3" where
  "M_moved M_other m1 m2 s2f =
     vsub (vsub (vadd (vadd M_other (spin1_final m1)) s2f) (spin1_initial m1)) (spin2_initial m2)"

definition pair_move ::
  "'r env \<Rightarrow> vec3 \<Rightarrow> matrix \<Rightarrow> vec3 \<Rightarrow> move1 \<Rightarrow> move2 \<Rightarrow> cmc_state \<Rightarrow> pair \<times> cmc_state" where
  "pair_move env ppolar_vector ppolar_matrix_tp M_other m1 m2 st1 =
    (let x = fst (spin2_fin_mvd01 m2);
         y = snd (spin2_fin_mvd01 m2);
         z = sign (snd (snd (spin2_init_mvd m2))) * sqrt (1 - x * x - y * y);
         s2f = mvmul ppolar_matrix_tp (x, y, z);
         Eold = spin_energy env st1 (atom_number2 m2);
         st2 = set_spin st1 (atom_number2 m2) s2f;
         Enew = spin_energy env st2 (atom_number2 m2);
         dE2 = (Enew - Eold) * mu_s_SI env (imat2 m2) * (1.07828231 * 10 ^ 23)
     in (\<lparr>spin2_fin_mvd = (x, y, z),
          spin2_final = s2f,
          delta_energy2 = dE2,
          delta_energy21 = delta_energy1 m1 + dE2,
          Mz_old = vdot M_other ppolar_vector,
          Mz_new = vdot (M_moved M_other m1 m2 s2f) ppolar_vector\<rparr>,
         st2))"

text \<open>Line 232; the divisor is zero when the temperature is.\<close>

definition kBTBohr :: "'r env \<Rightarrow> double" where
  "kBTBohr env = fp_div (Num (9.27400915 / 10 ^ 24)) (Num (temperature env * (1.3806503 / 10 ^ 23)))"

text \<open>Line 370, evaluated left to right.\<close>

definition probability :: "double \<Rightarrow> move2 \<Rightarrow> pair \<Rightarrow> double" where
  "probability kB m2 p =
    (let q = fp_div (Num (Mz_new p)) (Num (Mz_old p))
     in fp_mul (fp_mul (fp_exp (fp_mul (Num (- delta_energy21 p)) kB)) (fp_mul q q))
          (fp_fabs (fp_div (Num (snd (snd (spin2_init_mvd m2))))
                           (Num (snd (snd (spin2_fin_mvd p)))))))"

definition count_success :: "cmc_state \<Rightarrow> cmc_state" where
  "count_success st = st\<lparr>mc_success := mc_success st + 1\<rparr>"

definition count_energy_reject :: "cmc_state \<Rightarrow> cmc_state" where
  "count_energy_reject st = st\<lparr>energy_reject := energy_reject st + 1\<rparr>"

definition count_sphere_reject :: "cmc_state \<Rightarrow> cmc_state" where
  "count_sphere_reject st = st\<lparr>sphere_reject := sphere_reject st + 1\<rparr>"

definition count_total :: "cmc_state \<Rightarrow> cmc_state" where
  "count_total st = st\<lparr>mc_total := mc_total st + 1\<rparr>"

text \<open>
  One pass through the loop body, on the running magnetisation \<open>M_other\<close>, the globals and
  the generator. The test of line 327 compares doubles: when \<open>spin1_norm2\<close> is zero,
  \<open>spin2_fin_mvd[0]\<close> and \<open>[1]\<close> are NaN, \<open>NaN < 1.0\<close> is false and the branch of line 393
  is taken, which is the first conjunct here. The \<open>continue\<close> of line 365 leaves the loop
  body with both new spins in the arrays, before any counter or \<open>M_other\<close> is touched.
\<close>

definition trial ::
  "'r env \<Rightarrow> vec3 \<Rightarrow> matrix \<Rightarrow> matrix \<Rightarrow> double \<Rightarrow> vec3 \<times> cmc_state \<times> 'r
     \<Rightarrow> fault + (vec3 \<times> cmc_state \<times> 'r)" where
  "trial env ppolar_vector ppolar_matrix ppolar_matrix_tp kB s =
    (case s of (M_other, st, r) \<Rightarrow>
     case first_move env ppolar_matrix st r of
       Inl e \<Rightarrow> Inl e
     | Inr (m1, st1, r1) \<Rightarrow>
     case second_move env ppolar_matrix m1 st1 r1 of
       Inl e \<Rightarrow> Inl e
     | Inr (m2, r2) \<Rightarrow>
       if spin1_norm2 m1 \<noteq> 0 \<and> in_plane2 m2 < 1 \<and> atom_number1 m1 \<noteq> atom_number2 m2
       then
         (case pair_move env ppolar_vector ppolar_matrix_tp M_other m1 m2 st1 of (p, st2) \<Rightarrow>
          if delta_energy21 p < 0 then Inr (M_other, st2, r2)
          else
            (case grnd env r2 of (u, r3) \<Rightarrow>
             if fp_ge (probability kB m2 p) u \<and> 0 \<le> Mz_new p
             then Inr (M_moved M_other m1 m2 (spin2_final p),
                       count_total (count_success st2), r3)
             else Inr (M_other,
                       count_total (count_energy_reject
                         (set_spin (set_spin st2 (atom_number1 m1) (spin1_initial m1))
                            (atom_number2 m2) (spin2_initial m2))),
                       r3)))
       else Inr (M_other,
                 count_total (count_sphere_reject
                   (set_spin st1 (atom_number1 m1) (spin1_initial m1))),
                 r2))"

subsection \<open>sim::ConstrainedMonteCarlo (lines 195-403)\<close>

text \<open>Lines 250-258: \<open>M_other\<close> is summed over the spin arrays.\<close>

definition sum_spins :: "nat \<Rightarrow> cmc_state \<Rightarrow> vec3" where
  "sum_spins n st =
     fold (\<lambda>atom M. case M of (M0, M1, M2) \<Rightarrow>
             (M0 + x_spin_array st ! atom, M1 + y_spin_array st ! atom,
              M2 + z_spin_array st ! atom))
          [0..<n] (0, 0, 0)"

text \<open>Lines 260-401: \<open>num_atoms\<close> passes through the loop body.\<close>

fun mc_loop ::
  "'r env \<Rightarrow> vec3 \<Rightarrow> matrix \<Rightarrow> matrix \<Rightarrow> double \<Rightarrow> nat \<Rightarrow> vec3 \<times> cmc_state \<times> 'r
     \<Rightarrow> fault + (vec3 \<times> cmc_state \<times> 'r)" where
  "mc_loop env pv pm pm_tp kB 0 s = Inr s"
| "mc_loop env pv pm pm_tp kB (Suc n) s =
     (case trial env pv pm pm_tp kB s of
        Inl e \<Rightarrow> Inl e
      | Inr s' \<Rightarrow> mc_loop env pv pm pm_tp kB n s')"

text \<open>Lines 239-245: the matrices are copied into local 3x3 arrays.\<close>

definition is_3x3 :: "matrix \<Rightarrow> bool" where
  "is_3x3 m \<longleftrightarrow> 3 \<le> length m \<and> list_all (\<lambda>row. 3 \<le> length row) (take 3 m)"

definition copy_matrix :: "matrix \<Rightarrow> matrix" where
  "copy_matrix m = map (\<lambda>i. map (\<lambda>j. m ! i ! j) [0..<3]) [0..<3]"

definition copy_vector :: "matrix \<Rightarrow> vec3" where
  "copy_vector m = (m ! 0 ! 0, m ! 0 ! 1, m ! 0 ! 2)"

text \<open>The state in which the loop starts: initialised if need be, \<open>M_other\<close> summed.\<close>

definition sweep_entry :: "'r env \<Rightarrow> cmc_state \<Rightarrow> fault + (vec3 \<times> cmc_state)" where
  "sweep_entry env st =
    (case (if \<not> is_initialised st then CMCinit env st else Inr st) of
       Inl e \<Rightarrow> Inl e
     | Inr st0 \<Rightarrow>
       let n = nat (num_atoms env) in
       if \<not> (is_3x3 (polar_matrix st0) \<and> is_3x3 (polar_matrix_tp st0)
               \<and> 1 \<le> length (polar_vector st0) \<and> 3 \<le> length (polar_vector st0 ! 0))
          \<or> length (x_spin_array st0) < n \<or> length (y_spin_array st0) < n
          \<or> length (z_spin_array st0) < n
       then Inl Out_of_bounds
       else Inr (sum_spins n st0, st0))"

text \<open>The result is the return value \<open>EXIT_SUCCESS\<close> with the globals and the generator.\<close>

definition ConstrainedMonteCarlo ::
  "'r env \<Rightarrow> cmc_state \<Rightarrow> 'r \<Rightarrow> fault + (int \<times> cmc_state \<times> 'r)" where
  "ConstrainedMonteCarlo env st r =
    (case sweep_entry env st of
       Inl e \<Rightarrow> Inl e
     | Inr (M_other, st0) \<Rightarrow>
       (case mc_loop env (copy_vector (polar_vector st0)) (copy_matrix (polar_matrix st0))
               (copy_matrix (polar_matrix_tp st0)) (kBTBohr env) (nat (num_atoms env))
               (M_other, st0, r) of
          Inl e \<Rightarrow> Inl e
        | Inr (M, st', r') \<Rightarrow> Inr (0, st', r')))"

subsection \<open>What the properties are stated with\<close>

text \<open>The sum of all spin vectors, the identity of the counters, and unit length.\<close>

definition total_spin :: "cmc_state \<Rightarrow> vec3" where
  "total_spin st =
     (sum_list (x_spin_array st), sum_list (y_spin_array st), sum_list (z_spin_array st))"

definition counters_balanced :: "cmc_state \<Rightarrow> bool" where
  "counters_balanced st \<longleftrightarrow>
     mc_total st = mc_success st + energy_reject st + sphere_reject st"

definition unit_spins :: "cmc_state \<Rightarrow> bool" where
  "unit_spins st \<longleftrightarrow>
     length (y_spin_array st) = length (x_spin_array st)
     \<and> length (z_spin_array st) = length (x_spin_array st)
     \<and> list_all (\<lambda>a. vdot (get_spin st a) (get_spin st a) = 1) [0..<length (x_spin_array st)]"

text \<open>The rotation pair and constraint vector for given cosines and sines of the two angles.\<close>

definition rot_frame :: "real \<Rightarrow> real \<Rightarrow> real \<Rightarrow> real \<Rightarrow> matrix \<times> matrix \<times> matrix" where
  "rot_frame cy sy cz sz =
     ([[cy * cz, cy * sz, - sy], [- sz, cz, 0], [sy * cz, sy * sz, cy]],
      [[cy * cz, - sz, sy * cz], [cy * sz, cz, sy * sz], [- sy, 0, cy]],
      [[sy * cz, sy * sz, cy]])"

subsection \<open>Concrete runs\<close>

text \<open>
  Two atoms of one material with a moment of one Bohr magneton (the inverse of the factor
  of lines 306 and 352, so that an energy difference is the difference of the two
  energies) at 300 K, the constraint
  along \<open>+z\<close> (both angles zero, so the rotation is the identity), and a generator that hands out a prepared list of numbers, to
  \<open>grnd\<close> and \<open>gaussian\<close> alike, in the order the loop body asks for them.
\<close>

definition pop :: "real list \<Rightarrow> real \<times> real list" where
  "pop r = (case r of [] \<Rightarrow> (0, []) | u # r' \<Rightarrow> (u, r'))"

definition ex_env ::
  "(real list \<Rightarrow> real list \<Rightarrow> real list \<Rightarrow> nat \<Rightarrow> real) \<Rightarrow> real list env" where
  "ex_env energy =
     \<lparr>num_atoms = 2, type_array = (\<lambda>_. 0), mu_s_SI = (\<lambda>_. 1 / (1.07828231 * 10 ^ 23)),
      temperature = 300,
      constraint_phi = 0, constraint_theta = 0, calculate_spin_energy = energy,
      grnd = pop, gaussian = pop\<rparr>"

definition unit_matrix :: matrix where
  "unit_matrix = [[1, 0, 0], [0, 1, 0], [0, 0, 1]]"

definition ex_state :: "real list \<Rightarrow> real list \<Rightarrow> real list \<Rightarrow> cmc_state" where
  "ex_state xs ys zs =
     \<lparr>x_spin_array = xs, y_spin_array = ys, z_spin_array = zs,
      hamiltonian_simulation_flags = [1, 1, 1, 0],
      mc_success = 0, mc_total = 0, sphere_reject = 0, energy_reject = 0,
      is_initialised = True,
      polar_vector = [[0, 0, 1]],
      polar_matrix_tp = unit_matrix,
      polar_matrix = unit_matrix\<rparr>"

text \<open>No field and no exchange: every energy is zero.\<close>

definition free_env :: "real list env" where
  "free_env = ex_env (\<lambda>x y z a. 0)"

text \<open>A field along \<open>+z\<close>, and one along \<open>-z\<close>: the energy of a spin is \<open>\<mp>\<close> its z component.\<close>

definition field_up_env :: "real list env" where
  "field_up_env = ex_env (\<lambda>x y z a. - z ! a)"

definition field_down_env :: "real list env" where
  "field_down_env = ex_env (\<lambda>x y z a. z ! a)"

text \<open>
  Spins \<open>(3/5, 0, 4/5)\<close> and \<open>(-3/5, 0, 4/5)\<close>, so \<open>M = (0, 0, 8/5)\<close>. The draws pick atom 0,
  move it to \<open>(0, 0, 1)\<close>, pick atom 1, whose new spin is then \<open>(0, 0, 1)\<close> too, and give
  \<open>1/2\<close> for the acceptance test.
\<close>

definition tilted_state :: cmc_state where
  "tilted_state = ex_state [3/5, - 3/5] [0, 0] [4/5, 4/5]"

definition tilted_draws :: "real list" where
  "tilted_draws = [0, - 3/5, 0, 1/5, 1/2, 1/2]"

text \<open>
  Spins \<open>(0, 0, 1)\<close> and \<open>(3/5, 0, -4/5)\<close>, so \<open>M = (0, 0, 1/5)\<close>. The draws pick atom 0,
  move it to \<open>(3/5, 0, -4/5)\<close>, pick atom 1, whose new spin is then \<open>(0, 0, -1)\<close>, and
  leave \<open>0\<close> for the acceptance test.
\<close>

definition sinking_state :: cmc_state where
  "sinking_state = ex_state [0, 3/5] [0, 0] [1, - 4/5]"

definition sinking_draws :: "real list" where
  "sinking_draws = [0, 3/5, 0, - 9/5, 1/2, 0]"

text \<open>
  Spins \<open>(3/5, 0, -4/5)\<close> and \<open>(-3/5, 0, 4/5)\<close>, so \<open>M = (0, 0, 0)\<close>. The draws pick atom 0,
  move it to \<open>(0, 0, 1)\<close>, pick atom 1, whose new spin is then \<open>(0, 0, 1)\<close> too, and give
  \<open>1/2\<close> for the acceptance test.
\<close>

definition opposed_state :: cmc_state where
  "opposed_state = ex_state [3/5, - 3/5] [0, 0] [- 4/5, 4/5]"

definition opposed_draws :: "real list" where
  "opposed_draws = [0, - 3/5, 0, 9/5, 1/2, 1/2]"

text \<open>Draws that move atom 0 of \<open>tilted_state\<close> to \<open>(0, 0, 1)\<close> and pick atom 0 again.\<close>

definition repeat_draws :: "real list" where
  "repeat_draws = [0, - 3/5, 0, 1/5, 0]"

text \<open>
  Draws for a whole sweep over \<open>tilted_state\<close>: the first trial is that of \<open>tilted_draws\<close>
  up to the second pick; the second picks atom 0, does not move it, picks atom 1 and
  gives \<open>1/2\<close> for the acceptance test.
\<close>

definition sweep_draws :: "real list" where
  "sweep_draws = [0, - 3/5, 0, 1/5, 1/2, 0, 0, 0, 0, 1/2, 1/2]"

text \<open>The local variables of a trial in these runs, where the rotation is the identity.\<close>

definition ex_m1 :: "vec3 \<Rightarrow> vec3 \<Rightarrow> real \<Rightarrow> move1" where
  "ex_m1 s1i s1f dE1 =
     \<lparr>atom_number1 = 0, imat1 = 0, spin1_initial = s1i, spin1_init_mvd = s1i,
      spin1_norm2 = 1, spin1_final = s1f, spin1_fin_mvd = s1f, delta_energy1 = dE1\<rparr>"

definition ex_m2 :: "nat \<Rightarrow> vec3 \<Rightarrow> real \<times> real \<Rightarrow> move2" where
  "ex_m2 j s2i xy =
     \<lparr>atom_number2 = j, imat2 = 0, spin2_initial = s2i, spin2_init_mvd = s2i,
      spin2_fin_mvd01 = xy\<rparr>"

definition ex_pair :: "vec3 \<Rightarrow> real \<Rightarrow> real \<Rightarrow> real \<Rightarrow> real \<Rightarrow> pair" where
  "ex_pair s2f dE2 dE21 mz_old mz_new =
     \<lparr>spin2_fin_mvd = s2f, spin2_final = s2f, delta_energy2 = dE2, delta_energy21 = dE21,
      Mz_old = mz_old, Mz_new = mz_new\<rparr>"

text \<open>
  Draws that move atom 0 of \<open>tilted_state\<close> to \<open>(-1, 0, 0)\<close> and pick atom 1: the first
  in-plane component of its new spin is then exactly one.
\<close>

definition boundary_draws :: "real list" where
  "boundary_draws = [0, - 8/5, 0, - 4/5, 1/2]"

text \<open>
  Draws whose Gaussian step is the opposite of spin 0 of \<open>tilted_state\<close>, so that the
  argument of the square root of line 280 is zero, and that pick atom 1.
\<close>

definition cancel_draws :: "real list" where
  "cancel_draws = [0, - 3/5, 0, - 4/5, 1/2]"

text \<open>
  The first move under \<open>cancel_draws\<close>. In the code \<open>spin1_final\<close> and \<open>spin1_fin_mvd\<close> are
  NaN there, and so are the components of \<open>spin2_fin_mvd\<close> computed from them.
\<close>

definition cancelled_m1 :: move1 where
  "cancelled_m1 =
     \<lparr>atom_number1 = 0, imat1 = 0, spin1_initial = (3/5, 0, 4/5),
      spin1_init_mvd = (3/5, 0, 4/5), spin1_norm2 = 0, spin1_final = (0, 0, 0),
      spin1_fin_mvd = (0, 0, 0), delta_energy1 = 0\<rparr>"

section \<open>Properties\<close>

subsection \<open>The rotation pair\<close>

lemma polar_rot_matrix_rot_frame:
  "\<exists>cy sy cz sz. sy\<^sup>2 + cy\<^sup>2 = 1 \<and> sz\<^sup>2 + cz\<^sup>2 = 1
      \<and> polar_rot_matrix phi theta = rot_frame cy sy cz sz"
proof -
  have "polar_rot_matrix phi theta =
      rot_frame (cos (phi / 360 * 2 * 3.14159265358979323846264338327))
                (sin (phi / 360 * 2 * 3.14159265358979323846264338327))
                (cos (theta / 360 * 2 * 3.14159265358979323846264338327))
                (sin (theta / 360 * 2 * 3.14159265358979323846264338327))"
    by (simp add: polar_rot_matrix_def Let_def matmul_def transpose_matrix_def set_matrix_def
        num_cols_def rot_frame_def)
  then show ?thesis
    using sin_cos_squared_add by blast
qed

lemma polar_rot_matrix_0: "polar_rot_matrix 0 0 = (unit_matrix, unit_matrix, [[0, 0, 1]])"
  by (simp add: polar_rot_matrix_def Let_def matmul_def transpose_matrix_def set_matrix_def
        num_cols_def unit_matrix_def)

lemma rot_inverse_alg:
  fixes a b c :: real
  assumes "sy\<^sup>2 + cy\<^sup>2 = 1" "sz\<^sup>2 + cz\<^sup>2 = 1"
  shows "cy * cz * (cy * cz * a + - sz * b + sy * cz * c)
           + cy * sz * (cy * sz * a + cz * b + sy * sz * c)
           + - sy * (- sy * a + 0 * b + cy * c) = a"
    and "- sz * (cy * cz * a + - sz * b + sy * cz * c)
           + cz * (cy * sz * a + cz * b + sy * sz * c)
           + 0 * (- sy * a + 0 * b + cy * c) = b"
    and "sy * cz * (cy * cz * a + - sz * b + sy * cz * c)
           + sy * sz * (cy * sz * a + cz * b + sy * sz * c)
           + cy * (- sy * a + 0 * b + cy * c) = c"
  using assms by algebra+

lemma rot_norm_alg:
  fixes a b c :: real
  assumes "sy\<^sup>2 + cy\<^sup>2 = 1" "sz\<^sup>2 + cz\<^sup>2 = 1"
  shows "(cy * cz * a + - sz * b + sy * cz * c) * (cy * cz * a + - sz * b + sy * cz * c)
       + (cy * sz * a + cz * b + sy * sz * c) * (cy * sz * a + cz * b + sy * sz * c)
       + (- sy * a + 0 * b + cy * c) * (- sy * a + 0 * b + cy * c) = a * a + b * b + c * c"
  using assms by algebra

lemma rot_frame_inverse:
  assumes "sy\<^sup>2 + cy\<^sup>2 = 1" "sz\<^sup>2 + cz\<^sup>2 = 1" "rot_frame cy sy cz sz = (pm, pm_tp, pv)"
  shows "mvmul pm (mvmul pm_tp v) = v"
proof -
  obtain a b c where v: "v = (a, b, c)" by (cases v)
  have pm: "pm = [[cy * cz, cy * sz, - sy], [- sz, cz, 0], [sy * cz, sy * sz, cy]]"
    and tp: "pm_tp = [[cy * cz, - sz, sy * cz], [cy * sz, cz, sy * sz], [- sy, 0, cy]]"
    using assms(3) by (auto simp: rot_frame_def)
  show ?thesis
    unfolding v pm tp mvmul_def using rot_inverse_alg[OF assms(1,2), of a b c]
    by simp
qed

lemma rot_frame_norm:
  assumes "sy\<^sup>2 + cy\<^sup>2 = 1" "sz\<^sup>2 + cz\<^sup>2 = 1" "rot_frame cy sy cz sz = (pm, pm_tp, pv)"
  shows "vdot (mvmul pm_tp v) (mvmul pm_tp v) = vdot v v"
proof -
  obtain a b c where v: "v = (a, b, c)" by (cases v)
  have tp: "pm_tp = [[cy * cz, - sz, sy * cz], [cy * sz, cz, sy * sz], [- sy, 0, cy]]"
    using assms(3) by (auto simp: rot_frame_def)
  show ?thesis
    unfolding v tp mvmul_def vdot_def using rot_norm_alg[OF assms(1,2), of a b c]
    by simp
qed

lemma frame_inverse:
  assumes "polar_rot_matrix phi theta = (pm, pm_tp, pv)"
  shows "mvmul pm (mvmul pm_tp v) = v"
  using polar_rot_matrix_rot_frame[of phi theta] assms rot_frame_inverse by metis

lemma frame_norm:
  assumes "polar_rot_matrix phi theta = (pm, pm_tp, pv)"
  shows "vdot (mvmul pm_tp v) (mvmul pm_tp v) = vdot v v"
  using polar_rot_matrix_rot_frame[of phi theta] assms rot_frame_norm by metis

lemma frame_copy:
  assumes "polar_rot_matrix phi theta = (pm, pm_tp, pv)"
  shows "copy_matrix pm = pm" "copy_matrix pm_tp = pm_tp" "is_3x3 pm" "is_3x3 pm_tp"
        "1 \<le> length pv" "3 \<le> length (pv ! 0)"
  using polar_rot_matrix_rot_frame[of phi theta] assms
  by (auto simp: copy_matrix_def is_3x3_def rot_frame_def upt_conv_Cons)

subsection \<open>The stages of a trial\<close>

lemma set_spin_counters [simp]:
  "mc_success (set_spin st a s) = mc_success st"
  "mc_total (set_spin st a s) = mc_total st"
  "sphere_reject (set_spin st a s) = sphere_reject st"
  "energy_reject (set_spin st a s) = energy_reject st"
  by (simp_all add: set_spin_def split: prod.splits)

lemma set_spin_lengths [simp]:
  "length (x_spin_array (set_spin st a s)) = length (x_spin_array st)"
  "length (y_spin_array (set_spin st a s)) = length (y_spin_array st)"
  "length (z_spin_array (set_spin st a s)) = length (z_spin_array st)"
  by (simp_all add: set_spin_def split: prod.splits)

lemma normalise_unit:
  fixes t0 t1 t2 :: real
  assumes n: "n = t0 * t0 + t1 * t1 + t2 * t2" and "n \<noteq> 0"
  shows "vdot (t0 * (1 / sqrt n), t1 * (1 / sqrt n), t2 * (1 / sqrt n))
              (t0 * (1 / sqrt n), t1 * (1 / sqrt n), t2 * (1 / sqrt n)) = 1"
proof -
  have "0 \<le> n" unfolding n by simp
  with assms have pos: "0 < n" by linarith
  then have sq: "sqrt n * sqrt n = n" by simp
  have "t0 * (1 / sqrt n) * (t0 * (1 / sqrt n)) + t1 * (1 / sqrt n) * (t1 * (1 / sqrt n))
       + t2 * (1 / sqrt n) * (t2 * (1 / sqrt n))
       = (t0 * t0 + t1 * t1 + t2 * t2) / (sqrt n * sqrt n)"
    by (simp add: add_divide_distrib)
  also have "\<dots> = 1" using pos sq n by simp
  finally show ?thesis by (simp add: vdot_def)
qed

lemma first_move_Inr:
  assumes "first_move env pm st r = Inr (m1, st1, r1)"
  shows "st1 = set_spin st (atom_number1 m1) (spin1_final m1)"
    and "atom_number1 m1 < length (x_spin_array st)"
    and "atom_number1 m1 < length (y_spin_array st)"
    and "atom_number1 m1 < length (z_spin_array st)"
    and "spin1_initial m1 = get_spin st (atom_number1 m1)"
    and "spin1_init_mvd m1 = mvmul pm (spin1_initial m1)"
    and "spin1_fin_mvd m1 = mvmul pm (spin1_final m1)"
  using assms
  by (auto simp: first_move_def Let_def in_bounds_def split: prod.splits if_splits)

lemma first_move_final:
  assumes "first_move env pm st r = Inr (m1, st1, r1)"
  obtains t0 t1 t2 where
    "spin1_norm2 m1 = t0 * t0 + t1 * t1 + t2 * t2"
    "spin1_final m1 = (t0 * (1 / sqrt (spin1_norm2 m1)), t1 * (1 / sqrt (spin1_norm2 m1)),
                       t2 * (1 / sqrt (spin1_norm2 m1)))"
  using assms
  by (auto simp: first_move_def Let_def split: prod.splits if_splits)

lemma first_move_unit:
  assumes "first_move env pm st r = Inr (m1, st1, r1)" "spin1_norm2 m1 \<noteq> 0"
  shows "vdot (spin1_final m1) (spin1_final m1) = 1"
proof -
  from assms(1) obtain t0 t1 t2 where
    n: "spin1_norm2 m1 = t0 * t0 + t1 * t1 + t2 * t2" and
    f: "spin1_final m1 = (t0 * (1 / sqrt (spin1_norm2 m1)), t1 * (1 / sqrt (spin1_norm2 m1)),
                       t2 * (1 / sqrt (spin1_norm2 m1)))"
    by (rule first_move_final)
  show ?thesis
    unfolding f by (rule normalise_unit[OF n assms(2)])
qed

lemma second_move_Inr:
  assumes "second_move env pm m1 st1 r1 = Inr (m2, r2)"
  shows "atom_number2 m2 < length (x_spin_array st1)"
    and "atom_number2 m2 < length (y_spin_array st1)"
    and "atom_number2 m2 < length (z_spin_array st1)"
    and "spin2_initial m2 = get_spin st1 (atom_number2 m2)"
    and "spin2_init_mvd m2 = mvmul pm (spin2_initial m2)"
    and "fst (spin2_fin_mvd01 m2) =
           fst (spin1_init_mvd m1) + fst (spin2_init_mvd m2) - fst (spin1_fin_mvd m1)"
    and "snd (spin2_fin_mvd01 m2) =
           fst (snd (spin1_init_mvd m1)) + fst (snd (spin2_init_mvd m2))
             - fst (snd (spin1_fin_mvd m1))"
  using assms
  by (auto simp: second_move_def Let_def in_bounds_def split: prod.splits if_splits)

lemma pair_move_eq:
  assumes "pair_move env pv pm_tp M m1 m2 st1 = (p, st2)"
  shows "st2 = set_spin st1 (atom_number2 m2) (spin2_final p)"
    and "spin2_final p = mvmul pm_tp (spin2_fin_mvd p)"
    and "fst (spin2_fin_mvd p) = fst (spin2_fin_mvd01 m2)"
    and "fst (snd (spin2_fin_mvd p)) = snd (spin2_fin_mvd01 m2)"
    and "snd (snd (spin2_fin_mvd p)) =
           sign (snd (snd (spin2_init_mvd m2))) * sqrt (1 - in_plane2 m2)"
    and "Mz_old p = vdot M pv"
    and "Mz_new p = vdot (M_moved M m1 m2 (spin2_final p)) pv"
  using assms
  by (auto simp: pair_move_def Let_def in_plane2_def algebra_simps)

text \<open>The four ways through the loop body.\<close>

lemma trial_cases [consumes 1, case_names sphere continue accept reject]:
  assumes "trial env pv pm pm_tp kB (M, st, r) = Inr (M', st', r')"
  obtains
    m1 st1 r1 m2 where
      "first_move env pm st r = Inr (m1, st1, r1)"
      "second_move env pm m1 st1 r1 = Inr (m2, r')"
      "\<not> (spin1_norm2 m1 \<noteq> 0 \<and> in_plane2 m2 < 1 \<and> atom_number1 m1 \<noteq> atom_number2 m2)"
      "M' = M"
      "st' = count_total (count_sphere_reject (set_spin st1 (atom_number1 m1) (spin1_initial m1)))"
  | m1 st1 r1 m2 p where
      "first_move env pm st r = Inr (m1, st1, r1)"
      "second_move env pm m1 st1 r1 = Inr (m2, r')"
      "spin1_norm2 m1 \<noteq> 0" "in_plane2 m2 < 1" "atom_number1 m1 \<noteq> atom_number2 m2"
      "pair_move env pv pm_tp M m1 m2 st1 = (p, st')"
      "delta_energy21 p < 0"
      "M' = M"
  | m1 st1 r1 m2 r2 p st2 u where
      "first_move env pm st r = Inr (m1, st1, r1)"
      "second_move env pm m1 st1 r1 = Inr (m2, r2)"
      "spin1_norm2 m1 \<noteq> 0" "in_plane2 m2 < 1" "atom_number1 m1 \<noteq> atom_number2 m2"
      "pair_move env pv pm_tp M m1 m2 st1 = (p, st2)"
      "\<not> delta_energy21 p < 0"
      "grnd env r2 = (u, r')"
      "fp_ge (probability kB m2 p) u" "0 \<le> Mz_new p"
      "M' = M_moved M m1 m2 (spin2_final p)"
      "st' = count_total (count_success st2)"
  | m1 st1 r1 m2 r2 p st2 u where
      "first_move env pm st r = Inr (m1, st1, r1)"
      "second_move env pm m1 st1 r1 = Inr (m2, r2)"
      "spin1_norm2 m1 \<noteq> 0" "in_plane2 m2 < 1" "atom_number1 m1 \<noteq> atom_number2 m2"
      "pair_move env pv pm_tp M m1 m2 st1 = (p, st2)"
      "\<not> delta_energy21 p < 0"
      "grnd env r2 = (u, r')"
      "\<not> (fp_ge (probability kB m2 p) u \<and> 0 \<le> Mz_new p)"
      "M' = M"
      "st' = count_total (count_energy_reject
               (set_spin (set_spin st2 (atom_number1 m1) (spin1_initial m1))
                  (atom_number2 m2) (spin2_initial m2)))"
proof (cases "first_move env pm st r")
  case (Inl e)
  with assms show ?thesis by (simp add: trial_def)
next
  case (Inr a)
  obtain m1 st1 r1 where fm: "first_move env pm st r = Inr (m1, st1, r1)"
    using Inr by (cases a) auto
  show ?thesis
  proof (cases "second_move env pm m1 st1 r1")
    case (Inl e)
    with assms fm show ?thesis by (simp add: trial_def)
  next
    case (Inr b)
    obtain m2 r2 where sm: "second_move env pm m1 st1 r1 = Inr (m2, r2)"
      using Inr by (cases b) auto
    show ?thesis
    proof (cases "spin1_norm2 m1 \<noteq> 0 \<and> in_plane2 m2 < 1 \<and> atom_number1 m1 \<noteq> atom_number2 m2")
      case False
      with assms fm sm have
        "M' = M \<and> r' = r2 \<and> st' = count_total (count_sphere_reject
                   (set_spin st1 (atom_number1 m1) (spin1_initial m1)))"
        by (simp add: trial_def)
      with fm sm False show ?thesis by (intro that(1)[of m1 st1 r1 m2]) simp_all
    next
      case valid: True
      obtain p st2 where pr: "pair_move env pv pm_tp M m1 m2 st1 = (p, st2)"
        by (cases "pair_move env pv pm_tp M m1 m2 st1")
      show ?thesis
      proof (cases "delta_energy21 p < 0")
        case True
        with assms fm sm valid pr have "M' = M \<and> r' = r2 \<and> st' = st2"
          by (simp add: trial_def)
        with fm sm valid pr True show ?thesis
          by (intro that(2)[of m1 st1 r1 m2 p]) simp_all
      next
        case nonneg: False
        obtain u r3 where g: "grnd env r2 = (u, r3)"
          by (cases "grnd env r2")
        show ?thesis
        proof (cases "fp_ge (probability kB m2 p) u \<and> 0 \<le> Mz_new p")
          case True
          with assms fm sm valid pr nonneg g have
            "M' = M_moved M m1 m2 (spin2_final p) \<and> r' = r3
               \<and> st' = count_total (count_success st2)"
            by (simp add: trial_def)
          with fm sm valid pr nonneg g True show ?thesis
            by (intro that(3)[of m1 st1 r1 m2 r2 p st2 u]) simp_all
        next
          case False
          with assms fm sm valid pr nonneg g have
            "M' = M \<and> r' = r3
               \<and> st' = count_total (count_energy_reject
               (set_spin (set_spin st2 (atom_number1 m1) (spin1_initial m1))
                  (atom_number2 m2) (spin2_initial m2)))"
            by (simp add: trial_def)
          with fm sm valid pr nonneg g False show ?thesis
            by (intro that(4)[of m1 st1 r1 m2 r2 p st2 u]) simp_all
        qed
      qed
    qed
  qed
qed

subsection \<open>The concrete runs, evaluated\<close>

lemmas ex_simps = ex_env_def ex_state_def unit_matrix_def pop_def first_move_def second_move_def
  pair_move_def trial_def Let_def in_bounds_def int_of_double_def get_spin_def set_spin_def
  spin_energy_def mvmul_def in_plane2_def sign_def vdot_def vadd_def vsub_def M_moved_def
  probability_def kBTBohr_def inf_of_sign_def count_total_def count_success_def
  count_energy_reject_def count_sphere_reject_def free_env_def field_up_env_def
  field_down_env_def

lemma tilted_free_trial:
  "trial free_env (0, 0, 1) unit_matrix unit_matrix (kBTBohr free_env)
     ((0, 0, 8/5), tilted_state, tilted_draws)
   = Inr ((0, 0, 2), (ex_state [0, 0] [0, 0] [1, 1])\<lparr>mc_success := 1, mc_total := 1\<rparr>, [])"
  by (simp add: ex_simps tilted_state_def tilted_draws_def)

subsection \<open>The counters\<close>

text \<open>
  C4. After a trial the counters satisfy
  \<open>mc_total = mc_success + energy_reject + sphere_reject\<close> whenever they did before it:
  the sphere reject, the accept and the energy reject each add one to their own counter
  and one to \<open>mc_total\<close>, and the \<open>continue\<close> of line 365 adds to none.
\<close>

theorem trial_counters_balanced:
  assumes "trial env pv pm pm_tp kB (M, st, r) = Inr (M', st', r')"
    and "counters_balanced st"
  shows "counters_balanced st'"
  using assms(1)
proof (cases rule: trial_cases)
  case (sphere m1 st1 r1 m2)
  with assms(2) first_move_Inr(1)[OF sphere(1)] show ?thesis
    by (simp add: counters_balanced_def count_total_def count_sphere_reject_def)
next
  case (continue m1 st1 r1 m2 p)
  with assms(2) first_move_Inr(1)[OF continue(1)] pair_move_eq(1)[OF continue(6)]
  show ?thesis
    by (simp add: counters_balanced_def)
next
  case (accept m1 st1 r1 m2 r2 p st2 u)
  with assms(2) first_move_Inr(1)[OF accept(1)] pair_move_eq(1)[OF accept(6)]
  show ?thesis
    by (simp add: counters_balanced_def count_total_def count_success_def)
next
  case (reject m1 st1 r1 m2 r2 p st2 u)
  with assms(2) first_move_Inr(1)[OF reject(1)] pair_move_eq(1)[OF reject(6)]
  show ?thesis
    by (simp add: counters_balanced_def count_total_def count_energy_reject_def)
qed

theorem trial_counters_balanced_witness:
  "counters_balanced tilted_state
   \<and> counters_balanced ((ex_state [0, 0] [0, 0] [1, 1])\<lparr>mc_success := 1, mc_total := 1\<rparr>)"
proof -
  have h: "counters_balanced tilted_state"
    by (simp add: counters_balanced_def tilted_state_def ex_state_def)
  show ?thesis
    using h trial_counters_balanced [OF tilted_free_trial h] by simp
qed

subsection \<open>Spins written and restored\<close>

lemma count_arrays [simp]:
  "x_spin_array (count_total st) = x_spin_array st"
  "y_spin_array (count_total st) = y_spin_array st"
  "z_spin_array (count_total st) = z_spin_array st"
  "x_spin_array (count_success st) = x_spin_array st"
  "y_spin_array (count_success st) = y_spin_array st"
  "z_spin_array (count_success st) = z_spin_array st"
  "x_spin_array (count_energy_reject st) = x_spin_array st"
  "y_spin_array (count_energy_reject st) = y_spin_array st"
  "z_spin_array (count_energy_reject st) = z_spin_array st"
  "x_spin_array (count_sphere_reject st) = x_spin_array st"
  "y_spin_array (count_sphere_reject st) = y_spin_array st"
  "z_spin_array (count_sphere_reject st) = z_spin_array st"
  by (simp_all add: count_total_def count_success_def count_energy_reject_def
      count_sphere_reject_def)

lemma restore_one:
  "set_spin (set_spin st a v) a (get_spin st a) = st"
  by (cases v) (simp add: set_spin_def get_spin_def)

lemma get_spin_other:
  "a \<noteq> b \<Longrightarrow> get_spin (set_spin st a v) b = get_spin st b"
  by (cases v) (simp add: set_spin_def get_spin_def)

lemma get_spin_same:
  "a < length (x_spin_array st) \<Longrightarrow> a < length (y_spin_array st)
     \<Longrightarrow> a < length (z_spin_array st) \<Longrightarrow> get_spin (set_spin st a v) a = v"
  by (cases v) (simp add: set_spin_def get_spin_def)

lemma set_spin_swap:
  "a \<noteq> b \<Longrightarrow> set_spin (set_spin st a v) b w = set_spin (set_spin st b w) a v"
  by (cases v; cases w) (simp add: set_spin_def list_update_swap)

lemma restore_two:
  assumes "a \<noteq> b"
  shows "set_spin (set_spin (set_spin (set_spin st a v) b w) a (get_spin st a)) b
           (get_spin (set_spin st a v) b) = st"
proof -
  have "set_spin (set_spin (set_spin st a v) b w) a (get_spin st a)
        = set_spin (set_spin (set_spin st a v) a (get_spin st a)) b w"
    using assms by (simp add: set_spin_swap)
  also have "\<dots> = set_spin st b w"
    by (simp add: restore_one)
  finally show ?thesis
    using assms by (simp add: get_spin_other restore_one)
qed

text \<open>What a trial leaves in the globals, in terms of the globals it started from.\<close>

lemma trial_outcomes [consumes 1, case_names sphere continue accept reject]:
  assumes "trial env pv pm pm_tp kB (M, st, r) = Inr (M', st', r')"
  obtains
    m1 st1 r1 m2 where
      "first_move env pm st r = Inr (m1, st1, r1)"
      "second_move env pm m1 st1 r1 = Inr (m2, r')"
      "\<not> (spin1_norm2 m1 \<noteq> 0 \<and> in_plane2 m2 < 1 \<and> atom_number1 m1 \<noteq> atom_number2 m2)"
      "M' = M"
      "st' = count_total (count_sphere_reject st)"
  | m1 st1 r1 m2 p where
      "first_move env pm st r = Inr (m1, st1, r1)"
      "second_move env pm m1 st1 r1 = Inr (m2, r')"
      "spin1_norm2 m1 \<noteq> 0" "in_plane2 m2 < 1" "atom_number1 m1 \<noteq> atom_number2 m2"
      "pair_move env pv pm_tp M m1 m2 st1 = (p, st')"
      "delta_energy21 p < 0"
      "M' = M"
      "st' = set_spin (set_spin st (atom_number1 m1) (spin1_final m1))
               (atom_number2 m2) (spin2_final p)"
  | m1 st1 r1 m2 r2 p st2 u where
      "first_move env pm st r = Inr (m1, st1, r1)"
      "second_move env pm m1 st1 r1 = Inr (m2, r2)"
      "spin1_norm2 m1 \<noteq> 0" "in_plane2 m2 < 1" "atom_number1 m1 \<noteq> atom_number2 m2"
      "pair_move env pv pm_tp M m1 m2 st1 = (p, st2)"
      "\<not> delta_energy21 p < 0"
      "grnd env r2 = (u, r')"
      "fp_ge (probability kB m2 p) u" "0 \<le> Mz_new p"
      "M' = M_moved M m1 m2 (spin2_final p)"
      "st' = count_total (count_success
               (set_spin (set_spin st (atom_number1 m1) (spin1_final m1))
                  (atom_number2 m2) (spin2_final p)))"
  | m1 st1 r1 m2 r2 p st2 u where
      "first_move env pm st r = Inr (m1, st1, r1)"
      "second_move env pm m1 st1 r1 = Inr (m2, r2)"
      "spin1_norm2 m1 \<noteq> 0" "in_plane2 m2 < 1" "atom_number1 m1 \<noteq> atom_number2 m2"
      "pair_move env pv pm_tp M m1 m2 st1 = (p, st2)"
      "\<not> delta_energy21 p < 0"
      "grnd env r2 = (u, r')"
      "\<not> (fp_ge (probability kB m2 p) u \<and> 0 \<le> Mz_new p)"
      "M' = M"
      "st' = count_total (count_energy_reject st)"
  using assms
proof (cases rule: trial_cases)
  case (sphere m1 st1 r1 m2)
  have "set_spin st1 (atom_number1 m1) (spin1_initial m1) = st"
    using first_move_Inr(1,5)[OF sphere(1)] by (simp add: restore_one)
  with sphere show ?thesis by (intro that(1)[of m1 st1 r1 m2]) simp_all
next
  case (continue m1 st1 r1 m2 p)
  have "st' = set_spin (set_spin st (atom_number1 m1) (spin1_final m1))
               (atom_number2 m2) (spin2_final p)"
    using first_move_Inr(1)[OF continue(1)] pair_move_eq(1)[OF continue(6)] by simp
  with continue show ?thesis by (intro that(2)[of m1 st1 r1 m2 p]) simp_all
next
  case (accept m1 st1 r1 m2 r2 p st2 u)
  have "st2 = set_spin (set_spin st (atom_number1 m1) (spin1_final m1))
               (atom_number2 m2) (spin2_final p)"
    using first_move_Inr(1)[OF accept(1)] pair_move_eq(1)[OF accept(6)] by simp
  with accept show ?thesis by (intro that(3)[of m1 st1 r1 m2 r2 p st2 u]) simp_all
next
  case (reject m1 st1 r1 m2 r2 p st2 u)
  have "set_spin (set_spin st2 (atom_number1 m1) (spin1_initial m1))
                  (atom_number2 m2) (spin2_initial m2) = st"
    using first_move_Inr(1,5)[OF reject(1)] pair_move_eq(1)[OF reject(6)]
      second_move_Inr(4)[OF reject(2)] reject(5)
    by (simp add: restore_two)
  with reject show ?thesis by (intro that(4)[of m1 st1 r1 m2 r2 p st2 u]) simp_all
qed

subsection \<open>Unit length\<close>

lemma unit_spins_iff:
  "unit_spins st \<longleftrightarrow>
     length (y_spin_array st) = length (x_spin_array st)
     \<and> length (z_spin_array st) = length (x_spin_array st)
     \<and> (\<forall>a<length (x_spin_array st). vdot (get_spin st a) (get_spin st a) = 1)"
  by (auto simp: unit_spins_def list_all_iff)

lemma unit_spins_set_spin:
  assumes "unit_spins st" "vdot v v = 1"
  shows "unit_spins (set_spin st a v)"
  unfolding unit_spins_iff
proof (intro conjI allI impI)
  fix b assume b: "b < length (x_spin_array (set_spin st a v))"
  show "vdot (get_spin (set_spin st a v) b) (get_spin (set_spin st a v) b) = 1"
  proof (cases "a = b")
    case True
    with b assms show ?thesis by (simp add: unit_spins_iff get_spin_same)
  next
    case False
    with b assms show ?thesis by (simp add: unit_spins_iff get_spin_other)
  qed
qed (use assms in \<open>simp_all add: unit_spins_iff\<close>)

lemma unit_spins_count [simp]:
  "unit_spins (count_total st) = unit_spins st"
  "unit_spins (count_success st) = unit_spins st"
  "unit_spins (count_energy_reject st) = unit_spins st"
  "unit_spins (count_sphere_reject st) = unit_spins st"
  by (simp_all add: unit_spins_iff get_spin_def)

lemma sign_square [simp]: "sign a * sign a = 1"
  by (simp add: sign_def)

lemma pair_move_unit:
  assumes "pair_move env pv pm_tp M m1 m2 st1 = (p, st2)" "in_plane2 m2 < 1"
  shows "vdot (spin2_fin_mvd p) (spin2_fin_mvd p) = 1"
proof -
  obtain x y z where v: "spin2_fin_mvd p = (x, y, z)" by (cases "spin2_fin_mvd p")
  have x: "x = fst (spin2_fin_mvd01 m2)" and y: "y = snd (spin2_fin_mvd01 m2)"
    and z: "z = sign (snd (snd (spin2_init_mvd m2))) * sqrt (1 - in_plane2 m2)"
    using pair_move_eq(3,4,5)[OF assms(1)] v by simp_all
  have "z * z = sign (snd (snd (spin2_init_mvd m2))) * sign (snd (snd (spin2_init_mvd m2)))
                 * (sqrt (1 - in_plane2 m2) * sqrt (1 - in_plane2 m2))"
    unfolding z by (simp add: mult_ac)
  also have "\<dots> = 1 - in_plane2 m2"
    using assms(2) by simp
  finally have "z * z = 1 - (x * x + y * y)"
    by (simp add: in_plane2_def x y)
  then show ?thesis
    by (simp add: v vdot_def)
qed

text \<open>
  C7. If every spin is a unit vector before a trial, every spin is a unit vector after it.
  The new first spin is normalised; the new second spin has the third component
  \<open>\<plusminus>sqrt(1 - x\<^sup>2 - y\<^sup>2)\<close> in the constraint frame and is rotated back by the transpose of
  the rotation, which keeps its length; the rejected trials put the saved spins back.
  When the Gaussian step cancels the first spin, the normalised spin is a NaN and the
  trial is a sphere reject, which restores the saved spin.
\<close>

theorem trial_unit_spins:
  assumes "trial env pv pm pm_tp kB (M, st, r) = Inr (M', st', r')"
    and "polar_rot_matrix phi theta = (pm, pm_tp, c)"
    and "unit_spins st"
  shows "unit_spins st'"
  using assms(1)
proof (cases rule: trial_outcomes)
  case (sphere m1 st1 r1 m2)
  with assms(3) show ?thesis by simp
next
  case (continue m1 st1 r1 m2 p)
  have "vdot (spin2_final p) (spin2_final p) = 1"
    using pair_move_eq(2)[OF continue(6)] pair_move_unit[OF continue(6,4)]
      frame_norm[OF assms(2)] by simp
  with continue(9) assms(3) first_move_unit[OF continue(1,3)] show ?thesis
    by (simp add: unit_spins_set_spin)
next
  case (accept m1 st1 r1 m2 r2 p st2 u)
  have "vdot (spin2_final p) (spin2_final p) = 1"
    using pair_move_eq(2)[OF accept(6)] pair_move_unit[OF accept(6,4)]
      frame_norm[OF assms(2)] by simp
  with accept(12) assms(3) first_move_unit[OF accept(1,3)] show ?thesis
    by (simp add: unit_spins_set_spin)
next
  case (reject m1 st1 r1 m2 r2 p st2 u)
  with assms(3) show ?thesis by simp
qed

theorem trial_unit_spins_witness:
  "unit_spins tilted_state
   \<and> polar_rot_matrix 0 0 = (unit_matrix, unit_matrix, [[0, 0, 1]])
   \<and> unit_spins ((ex_state [0, 0] [0, 0] [1, 1])\<lparr>mc_success := 1, mc_total := 1\<rparr>)"
proof -
  have h: "unit_spins tilted_state"
    by (simp add: unit_spins_def tilted_state_def ex_state_def get_spin_def vdot_def)
  show ?thesis
    using h polar_rot_matrix_0 trial_unit_spins [OF tilted_free_trial polar_rot_matrix_0 h]
    by simp
qed

subsection \<open>The two in-plane components of the magnetisation\<close>

lemma sum_list_update_real:
  fixes xs :: "real list"
  shows "k < length xs \<Longrightarrow> sum_list (xs[k := x]) = sum_list xs + x - xs ! k"
proof (induction xs arbitrary: k)
  case Nil
  then show ?case by simp
next
  case (Cons y ys)
  then show ?case by (cases k) simp_all
qed

lemma total_spin_set_spin:
  assumes "a < length (x_spin_array st)" "a < length (y_spin_array st)"
    "a < length (z_spin_array st)"
  shows "total_spin (set_spin st a v) = vsub (vadd (total_spin st) v) (get_spin st a)"
  using assms
  by (cases v) (simp add: total_spin_def set_spin_def get_spin_def vadd_def vsub_def
      sum_list_update_real)

lemma total_spin_count [simp]:
  "total_spin (count_total st) = total_spin st"
  "total_spin (count_success st) = total_spin st"
  "total_spin (count_energy_reject st) = total_spin st"
  "total_spin (count_sphere_reject st) = total_spin st"
  by (simp_all add: total_spin_def)

text \<open>The change of the total spin when both new spins stay in the arrays.\<close>

lemma total_spin_moved:
  assumes fm: "first_move env pm st r = Inr (m1, st1, r1)"
    and sm: "second_move env pm m1 st1 r1 = Inr (m2, r2)"
    and ne: "atom_number1 m1 \<noteq> atom_number2 m2"
  shows "total_spin (set_spin (set_spin st (atom_number1 m1) (spin1_final m1))
                       (atom_number2 m2) s2f)
         = M_moved (total_spin st) m1 m2 s2f"
proof -
  have st1: "st1 = set_spin st (atom_number1 m1) (spin1_final m1)"
    using first_move_Inr(1)[OF fm] .
  have "total_spin (set_spin st1 (atom_number2 m2) s2f)
        = vsub (vadd (total_spin st1) s2f) (spin2_initial m2)"
    using second_move_Inr(1-4)[OF sm] by (simp add: total_spin_set_spin)
  moreover have "total_spin st1 = vsub (vadd (total_spin st) (spin1_final m1)) (spin1_initial m1)"
    unfolding st1 using first_move_Inr(2-5)[OF fm] by (simp add: total_spin_set_spin)
  ultimately show ?thesis
    unfolding st1 M_moved_def
    by (cases "total_spin st"; cases "spin1_final m1"; cases "spin1_initial m1"; cases s2f;
        cases "spin2_initial m2") (simp add: vadd_def vsub_def)
qed

text \<open>In the constraint frame the first two components of the change cancel.\<close>

lemma moved_in_plane:
  assumes fm: "first_move env pm st r = Inr (m1, st1, r1)"
    and sm: "second_move env pm m1 st1 r1 = Inr (m2, r2)"
    and pmv: "pair_move env pv pm_tp M m1 m2 st1 = (p, st2)"
    and fr: "polar_rot_matrix phi theta = (pm, pm_tp, c)"
  shows "fst (mvmul pm (vsub (M_moved T m1 m2 (spin2_final p)) T)) = 0"
    and "fst (snd (mvmul pm (vsub (M_moved T m1 m2 (spin2_final p)) T))) = 0"
proof -
  have lin: "mvmul pm (vsub (M_moved T m1 m2 (spin2_final p)) T)
     = vsub (vsub (vadd (mvmul pm (spin1_final m1)) (mvmul pm (spin2_final p)))
               (mvmul pm (spin1_initial m1))) (mvmul pm (spin2_initial m2))"
    by (cases T; cases "spin1_final m1"; cases "spin1_initial m1"; cases "spin2_final p";
        cases "spin2_initial m2")
       (simp add: M_moved_def mvmul_def vadd_def vsub_def algebra_simps)
  have rt: "mvmul pm (spin2_final p) = spin2_fin_mvd p"
    using pair_move_eq(2)[OF pmv] frame_inverse[OF fr] by simp
  show "fst (mvmul pm (vsub (M_moved T m1 m2 (spin2_final p)) T)) = 0"
    unfolding lin rt
    using first_move_Inr(6,7)[OF fm] second_move_Inr(5,6)[OF sm] pair_move_eq(3)[OF pmv]
    by (cases "mvmul pm (spin1_final m1)"; cases "mvmul pm (spin1_initial m1)";
        cases "spin2_fin_mvd p"; cases "mvmul pm (spin2_initial m2)")
       (simp add: vadd_def vsub_def)
  show "fst (snd (mvmul pm (vsub (M_moved T m1 m2 (spin2_final p)) T))) = 0"
    unfolding lin rt
    using first_move_Inr(6,7)[OF fm] second_move_Inr(5,7)[OF sm] pair_move_eq(4)[OF pmv]
    by (cases "mvmul pm (spin1_final m1)"; cases "mvmul pm (spin1_initial m1)";
        cases "spin2_fin_mvd p"; cases "mvmul pm (spin2_initial m2)")
       (simp add: vadd_def vsub_def)
qed

lemma mvmul_zero: "mvmul pm (vsub T T) = (0, 0, 0)"
  by (cases T) (simp add: mvmul_def vsub_def)

text \<open>
  C5. The change of the sum of all spins made by a trial, rotated into the constraint
  frame, has first and second component zero. For a move that stays in the arrays the
  change is \<open>spin1_final + spin2_final - spin1_initial - spin2_initial\<close>, and the first two
  components of the new second spin are chosen at lines 324-325 to cancel those of the
  other three; a rejected trial changes nothing.
\<close>

theorem trial_conserves_in_plane:
  assumes "trial env pv pm pm_tp kB (M, st, r) = Inr (M', st', r')"
    and "polar_rot_matrix phi theta = (pm, pm_tp, c)"
  shows "fst (mvmul pm (vsub (total_spin st') (total_spin st))) = 0
       \<and> fst (snd (mvmul pm (vsub (total_spin st') (total_spin st)))) = 0"
  using assms(1)
proof (cases rule: trial_outcomes)
  case (sphere m1 st1 r1 m2)
  then show ?thesis by (simp add: mvmul_zero)
next
  case (continue m1 st1 r1 m2 p)
  have "total_spin st' = M_moved (total_spin st) m1 m2 (spin2_final p)"
    unfolding continue(9) by (rule total_spin_moved[OF continue(1,2,5)])
  then show ?thesis
    using moved_in_plane[OF continue(1,2,6) assms(2)] by simp
next
  case (accept m1 st1 r1 m2 r2 p st2 u)
  have "total_spin st' = M_moved (total_spin st) m1 m2 (spin2_final p)"
    unfolding accept(12) using total_spin_moved[OF accept(1,2,5)] by simp
  then show ?thesis
    using moved_in_plane[OF accept(1,2,6) assms(2)] by simp
next
  case (reject m1 st1 r1 m2 r2 p st2 u)
  then show ?thesis by (simp add: mvmul_zero)
qed

theorem trial_conserves_in_plane_witness:
  "polar_rot_matrix 0 0 = (unit_matrix, unit_matrix, [[0, 0, 1]])
   \<and> total_spin tilted_state = (0, 0, 8/5)
   \<and> total_spin ((ex_state [0, 0] [0, 0] [1, 1])\<lparr>mc_success := 1, mc_total := 1\<rparr>) = (0, 0, 2)
   \<and> fst (mvmul unit_matrix (vsub (0, 0, 2) (0, 0, 8/5))) = 0
   \<and> fst (snd (mvmul unit_matrix (vsub (0, 0, 2) (0, 0, 8/5)))) = 0"
  using polar_rot_matrix_0 trial_conserves_in_plane [OF tilted_free_trial polar_rot_matrix_0]
  by (simp add: total_spin_def tilted_state_def ex_state_def)

subsection \<open>The sphere test\<close>

lemma pair_move_energy:
  assumes "pair_move env pv pm_tp M m1 m2 st1 = (p, st2)"
  shows "delta_energy21 p = delta_energy1 m1 + delta_energy2 p"
  using assms by (auto simp: pair_move_def Let_def)

lemma sign_nonzero [simp]: "sign a \<noteq> 0"
  by (simp add: sign_def)

lemma pair_move_z_nonzero:
  assumes "pair_move env pv pm_tp M m1 m2 st1 = (p, st2)" "in_plane2 m2 < 1"
  shows "snd (snd (spin2_fin_mvd p)) \<noteq> 0"
  using pair_move_eq(5)[OF assms(1)] assms(2) by simp

text \<open>The loop body once both atoms are picked.\<close>

lemma trial_picked:
  assumes "first_move env pm st r = Inr (m1, st1, r1)"
    and "second_move env pm m1 st1 r1 = Inr (m2, r2)"
  shows "trial env pv pm pm_tp kB (M, st, r) =
      (if spin1_norm2 m1 \<noteq> 0 \<and> in_plane2 m2 < 1 \<and> atom_number1 m1 \<noteq> atom_number2 m2
       then
         (case pair_move env pv pm_tp M m1 m2 st1 of (p, st2) \<Rightarrow>
          if delta_energy21 p < 0 then Inr (M, st2, r2)
          else
            (case grnd env r2 of (u, r3) \<Rightarrow>
             if fp_ge (probability kB m2 p) u \<and> 0 \<le> Mz_new p
             then Inr (M_moved M m1 m2 (spin2_final p), count_total (count_success st2), r3)
             else Inr (M, count_total (count_energy_reject st), r3)))
       else Inr (M, count_total (count_sphere_reject st), r2))"
proof -
  have one: "set_spin st1 (atom_number1 m1) (spin1_initial m1) = st"
    using first_move_Inr(1,5)[OF assms(1)] by (simp add: restore_one)
  have two: "atom_number1 m1 \<noteq> atom_number2 m2 \<Longrightarrow>
     set_spin (set_spin (set_spin st1 (atom_number2 m2) s) (atom_number1 m1) (spin1_initial m1))
                  (atom_number2 m2) (spin2_initial m2) = st" for s
    using first_move_Inr(1,5)[OF assms(1)] second_move_Inr(4)[OF assms(2)]
    by (simp add: restore_two)
  show ?thesis
    using assms one two
    by (auto simp: trial_def pair_move_def Let_def split: prod.splits)
qed

text \<open>
  C8, amended. Once both atoms are picked, the trial is a sphere reject exactly when the
  test of line 327 fails: when \<open>spin2_fin_mvd[0]\<^sup>2 + spin2_fin_mvd[1]\<^sup>2 \<ge> 1\<close>, or the two atoms
  are the same, or the Gaussian step cancelled the first spin, so that the normalised
  spin and the two components computed from it are NaN and the comparison with one is
  false. Then the globals are those before the trial but for \<open>sphere_reject\<close> and
  \<open>mc_total\<close>, one more each, so the first atom has its saved spin and the second was
  never written. Otherwise \<open>sphere_reject\<close> is unchanged, the argument of the square root
  of line 329 is strictly positive and \<open>spin2_fin_mvd[2]\<close>, the divisor of line 370, is not
  zero. The value one is rejected, the test being a strict \<open><\<close>.
\<close>

theorem sphere_reject_characterised:
  assumes "first_move env pm st r = Inr (m1, st1, r1)"
    and "second_move env pm m1 st1 r1 = Inr (m2, r2)"
  shows "(spin1_norm2 m1 = 0 \<or> 1 \<le> in_plane2 m2 \<or> atom_number2 m2 = atom_number1 m1 \<longrightarrow>
            trial env pv pm pm_tp kB (M, st, r)
              = Inr (M, count_total (count_sphere_reject st), r2))
       \<and> (\<not> (spin1_norm2 m1 = 0 \<or> 1 \<le> in_plane2 m2
               \<or> atom_number2 m2 = atom_number1 m1) \<longrightarrow>
            (case trial env pv pm pm_tp kB (M, st, r) of
               Inl e \<Rightarrow> False
             | Inr (M', st', r') \<Rightarrow> sphere_reject st' = sphere_reject st)
            \<and> 0 < 1 - in_plane2 m2
            \<and> snd (snd (spin2_fin_mvd (fst (pair_move env pv pm_tp M m1 m2 st1)))) \<noteq> 0)"
proof (intro conjI impI)
  assume "spin1_norm2 m1 = 0 \<or> 1 \<le> in_plane2 m2 \<or> atom_number2 m2 = atom_number1 m1"
  then show "trial env pv pm pm_tp kB (M, st, r)
              = Inr (M, count_total (count_sphere_reject st), r2)"
    unfolding trial_picked[OF assms(1,2)] by auto
next
  assume v: "\<not> (spin1_norm2 m1 = 0 \<or> 1 \<le> in_plane2 m2
               \<or> atom_number2 m2 = atom_number1 m1)"
  then show "0 < 1 - in_plane2 m2" by simp
  obtain p st2 where pmv: "pair_move env pv pm_tp M m1 m2 st1 = (p, st2)"
    by (cases "pair_move env pv pm_tp M m1 m2 st1")
  from v show "snd (snd (spin2_fin_mvd (fst (pair_move env pv pm_tp M m1 m2 st1)))) \<noteq> 0"
    using pair_move_z_nonzero[OF pmv] pmv by simp
  have st2: "sphere_reject st2 = sphere_reject st"
    using pair_move_eq(1)[OF pmv] first_move_Inr(1)[OF assms(1)] by simp
  show "case trial env pv pm pm_tp kB (M, st, r) of
               Inl e \<Rightarrow> False
             | Inr (M', st', r') \<Rightarrow> sphere_reject st' = sphere_reject st"
    unfolding trial_picked[OF assms(1,2)] using v pmv st2
    by (simp add: count_total_def count_success_def count_energy_reject_def
        split: prod.splits)
qed

subsection \<open>The acceptance test\<close>

lemma kBTBohr_finite:
  "0 < temperature env \<Longrightarrow>
     kBTBohr env = Num ((9.27400915 / 10 ^ 24) / (temperature env * (1.3806503 / 10 ^ 23)))"
  by (simp add: kBTBohr_def)

lemma probability_finite:
  assumes "0 < temperature env" "Mz_old p \<noteq> 0" "snd (snd (spin2_fin_mvd p)) \<noteq> 0"
  shows "probability (kBTBohr env) m2 p =
     Num (exp (- delta_energy21 p
                 * ((9.27400915 / 10 ^ 24) / (temperature env * (1.3806503 / 10 ^ 23))))
          * ((Mz_new p / Mz_old p) * (Mz_new p / Mz_old p))
          * \<bar>snd (snd (spin2_init_mvd m2)) / snd (snd (spin2_fin_mvd p))\<bar>)"
  using assms by (simp add: kBTBohr_finite probability_def Let_def)


lemma trial_tested:
  assumes "first_move env pm st r = Inr (m1, st1, r1)"
    and "second_move env pm m1 st1 r1 = Inr (m2, r2)"
    and "spin1_norm2 m1 \<noteq> 0" and "in_plane2 m2 < 1"
    and "atom_number1 m1 \<noteq> atom_number2 m2"
    and "pair_move env pv pm_tp M m1 m2 st1 = (p, st2)"
    and "\<not> delta_energy21 p < 0"
    and "grnd env r2 = (u, r3)"
  shows "trial env pv pm pm_tp kB (M, st, r) =
           (if fp_ge (probability kB m2 p) u \<and> 0 \<le> Mz_new p
            then Inr (M_moved M m1 m2 (spin2_final p), count_total (count_success st2), r3)
            else Inr (M, count_total (count_energy_reject st), r3))"
  unfolding trial_picked[OF assms(1,2)] using assms(3-8) by simp

text \<open>
  C6. When the test of line 371 is reached (both atoms picked, the pair move valid, the
  energy difference not negative), at a positive temperature and with \<open>Mz_old\<close> not zero,
  the probability of line 370 is
  \<open>P = exp(-(delta_energy1 + delta_energy2) * beta) * (Mz_new/Mz_old)\<^sup>2 *
  |spin2_init_mvd[2] / spin2_fin_mvd[2]|\<close> with \<open>beta = 9.27400915e-24 / (1.3806503e-23 * T)\<close>,
  and the trial is the accept when \<open>Mz_new \<ge> 0\<close> and \<open>P \<ge> grnd()\<close> and the energy reject
  otherwise.
\<close>

theorem metropolis_test:
  assumes "first_move env pm st r = Inr (m1, st1, r1)"
    and "second_move env pm m1 st1 r1 = Inr (m2, r2)"
    and "spin1_norm2 m1 \<noteq> 0" and "in_plane2 m2 < 1"
    and "atom_number1 m1 \<noteq> atom_number2 m2"
    and "pair_move env pv pm_tp M m1 m2 st1 = (p, st2)"
    and "\<not> delta_energy21 p < 0"
    and "grnd env r2 = (u, r3)"
    and "0 < temperature env" and "Mz_old p \<noteq> 0"
  shows
    "(let beta = (9.27400915 / 10 ^ 24) / (1.3806503 / 10 ^ 23 * temperature env);
          P = exp (- (delta_energy1 m1 + delta_energy2 p) * beta)
                * (Mz_new p / Mz_old p)\<^sup>2
                * \<bar>snd (snd (spin2_init_mvd m2)) / snd (snd (spin2_fin_mvd p))\<bar>
      in probability (kBTBohr env) m2 p = Num P
         \<and> trial env pv pm pm_tp (kBTBohr env) (M, st, r) =
             (if 0 \<le> Mz_new p \<and> u \<le> P
              then Inr (M_moved M m1 m2 (spin2_final p), count_total (count_success st2), r3)
              else Inr (M, count_total (count_energy_reject st), r3)))"
proof -
  have z: "snd (snd (spin2_fin_mvd p)) \<noteq> 0"
    using pair_move_z_nonzero[OF assms(6,4)] .
  have P: "probability (kBTBohr env) m2 p =
     Num (exp (- (delta_energy1 m1 + delta_energy2 p)
                 * ((9.27400915 / 10 ^ 24) / (1.3806503 / 10 ^ 23 * temperature env)))
          * (Mz_new p / Mz_old p)\<^sup>2
          * \<bar>snd (snd (spin2_init_mvd m2)) / snd (snd (spin2_fin_mvd p))\<bar>)"
    unfolding probability_finite[OF assms(9,10) z] pair_move_energy[OF assms(6)]
    by (simp add: power2_eq_square mult.commute)
  show ?thesis
    unfolding Let_def trial_tested[OF assms(1-8)] P
    by (auto simp: conj_commute)
qed


text \<open>
  C1, amended. For a valid pair move with a negative energy difference the loop body
  leaves both new spins in the arrays without computing the probability or drawing the
  number for the test; with an energy difference that is not negative the test
  \<open>probability \<ge> grnd()\<close> and \<open>Mz_new \<ge> 0\<close> decides between the accept and the energy reject.
\<close>

theorem lower_energy_kept_else_tested:
  assumes "first_move env pm st r = Inr (m1, st1, r1)"
    and "second_move env pm m1 st1 r1 = Inr (m2, r2)"
    and "spin1_norm2 m1 \<noteq> 0" and "in_plane2 m2 < 1"
    and "atom_number1 m1 \<noteq> atom_number2 m2"
    and "pair_move env pv pm_tp M m1 m2 st1 = (p, st2)"
    and "grnd env r2 = (u, r3)"
  shows "case trial env pv pm pm_tp kB (M, st, r) of
           Inl e \<Rightarrow> False
         | Inr (M', st', r') \<Rightarrow>
             if delta_energy21 p < 0
             then get_spin st' (atom_number1 m1) = spin1_final m1
                \<and> get_spin st' (atom_number2 m2) = spin2_final p
                \<and> r' = r2
             else r' = r3
                \<and> (if fp_ge (probability kB m2 p) u \<and> 0 \<le> Mz_new p
                    then get_spin st' (atom_number1 m1) = spin1_final m1
                       \<and> get_spin st' (atom_number2 m2) = spin2_final p
                       \<and> mc_success st' = mc_success st + 1
                    else st' = count_total (count_energy_reject st))"
proof -
  have st2: "st2 = set_spin (set_spin st (atom_number1 m1) (spin1_final m1))
                     (atom_number2 m2) (spin2_final p)"
    using first_move_Inr(1)[OF assms(1)] pair_move_eq(1)[OF assms(6)] by simp
  have i: "get_spin st2 (atom_number1 m1) = spin1_final m1"
    unfolding st2 using assms(5) first_move_Inr(2-4)[OF assms(1)]
    by (simp add: get_spin_other get_spin_same)
  have j: "get_spin st2 (atom_number2 m2) = spin2_final p"
    unfolding st2 using second_move_Inr(1-3)[OF assms(2)] first_move_Inr(1)[OF assms(1)]
    by (simp add: get_spin_same)
  have s: "mc_success st2 = mc_success st"
    unfolding st2 by simp
  show ?thesis
    unfolding trial_picked[OF assms(1,2)]
    using assms(3-7) i j s
    by (simp add: get_spin_def count_total_def count_success_def)
qed

subsection \<open>The start of a sweep\<close>

lemma sum_spins_fold:
  fixes xs ys zs :: "real list"
  assumes "n \<le> length xs" "n \<le> length ys" "n \<le> length zs"
  shows "fold (\<lambda>atom M. case M of (M0, M1, M2) \<Rightarrow>
             (M0 + xs ! atom, M1 + ys ! atom, M2 + zs ! atom)) [0..<n] (a, b, c)
         = (a + sum_list (take n xs), b + sum_list (take n ys), c + sum_list (take n zs))"
  using assms
proof (induction n)
  case 0
  then show ?case by simp
next
  case (Suc n)
  then show ?case by (simp add: take_Suc_conv_app_nth)
qed

lemma sum_spins_take:
  assumes "n \<le> length (x_spin_array st)" "n \<le> length (y_spin_array st)"
    "n \<le> length (z_spin_array st)"
  shows "sum_spins n st = (sum_list (take n (x_spin_array st)),
           sum_list (take n (y_spin_array st)), sum_list (take n (z_spin_array st)))"
  unfolding sum_spins_def using sum_spins_fold[OF assms, of 0 0 0] by simp

text \<open>
  C10. Whenever \<open>ConstrainedMonteCarlo\<close> gets as far as its loop, the \<open>M_other\<close> the first
  trial starts from is the sum of the \<open>num_atoms\<close> spin vectors that are in the arrays at
  that moment, whatever any earlier call did: \<open>M_other\<close> is a local variable, set to zero
  and summed at lines 250-258, and the call is the loop run from that state.
\<close>

theorem sweep_starts_from_spin_sum:
  assumes "sweep_entry env st = Inr (M, st0)"
  shows "M = (sum_list (take (nat (num_atoms env)) (x_spin_array st0)),
              sum_list (take (nat (num_atoms env)) (y_spin_array st0)),
              sum_list (take (nat (num_atoms env)) (z_spin_array st0)))
       \<and> ConstrainedMonteCarlo env st r =
           (case mc_loop env (copy_vector (polar_vector st0)) (copy_matrix (polar_matrix st0))
                   (copy_matrix (polar_matrix_tp st0)) (kBTBohr env) (nat (num_atoms env))
                   (M, st0, r) of
              Inl e \<Rightarrow> Inl e
            | Inr (M', st', r') \<Rightarrow> Inr (0, st', r'))"
proof -
  have le: "nat (num_atoms env) \<le> length (x_spin_array st0)"
      "nat (num_atoms env) \<le> length (y_spin_array st0)"
      "nat (num_atoms env) \<le> length (z_spin_array st0)"
    and M: "M = sum_spins (nat (num_atoms env)) st0"
    using assms by (auto simp: sweep_entry_def Let_def split: sum.splits if_splits)
  show ?thesis
    using sum_spins_take[OF le] M assms by (simp add: ConstrainedMonteCarlo_def)
qed

subsection \<open>The concrete runs, stage by stage\<close>

lemmas run_simps = ex_simps tilted_state_def tilted_draws_def sinking_state_def
  sinking_draws_def opposed_state_def opposed_draws_def repeat_draws_def sweep_draws_def
  ex_m1_def ex_m2_def ex_pair_def

lemma tilted_first_move:
  "first_move free_env unit_matrix tilted_state tilted_draws
   = Inr (ex_m1 (3/5, 0, 4/5) (0, 0, 1) 0, ex_state [0, - 3/5] [0, 0] [1, 4/5], [1/2, 1/2])"
  by (simp add: run_simps)

lemma tilted_second_move:
  "second_move free_env unit_matrix (ex_m1 (3/5, 0, 4/5) (0, 0, 1) 0)
     (ex_state [0, - 3/5] [0, 0] [1, 4/5]) [1/2, 1/2]
   = Inr (ex_m2 1 (- 3/5, 0, 4/5) (0, 0), [1/2])"
  by (simp add: run_simps)

lemma tilted_pair_move:
  "pair_move free_env (0, 0, 1) unit_matrix (0, 0, 8/5) (ex_m1 (3/5, 0, 4/5) (0, 0, 1) 0)
     (ex_m2 1 (- 3/5, 0, 4/5) (0, 0)) (ex_state [0, - 3/5] [0, 0] [1, 4/5])
   = (ex_pair (0, 0, 1) 0 0 (8/5) 2, ex_state [0, 0] [0, 0] [1, 1])"
  by (simp add: run_simps)

lemma repeat_first_move:
  "first_move free_env unit_matrix tilted_state repeat_draws
   = Inr (ex_m1 (3/5, 0, 4/5) (0, 0, 1) 0, ex_state [0, - 3/5] [0, 0] [1, 4/5], [0])"
  by (simp add: run_simps)

lemma repeat_second_move:
  "second_move free_env unit_matrix (ex_m1 (3/5, 0, 4/5) (0, 0, 1) 0)
     (ex_state [0, - 3/5] [0, 0] [1, 4/5]) [0]
   = Inr (ex_m2 0 (0, 0, 1) (3/5, 0), [])"
  by (simp add: run_simps)

lemma sinking_first_move:
  "first_move field_down_env unit_matrix sinking_state sinking_draws
   = Inr (ex_m1 (0, 0, 1) (3/5, 0, - 4/5) (- 9/5),
          ex_state [3/5, 3/5] [0, 0] [- 4/5, - 4/5], [1/2, 0])"
  by (simp add: run_simps)

lemma sinking_second_move:
  "second_move field_down_env unit_matrix (ex_m1 (0, 0, 1) (3/5, 0, - 4/5) (- 9/5))
     (ex_state [3/5, 3/5] [0, 0] [- 4/5, - 4/5]) [1/2, 0]
   = Inr (ex_m2 1 (3/5, 0, - 4/5) (0, 0), [0])"
  by (simp add: run_simps)

lemma sinking_pair_move:
  "pair_move field_down_env (0, 0, 1) unit_matrix (0, 0, 1/5)
     (ex_m1 (0, 0, 1) (3/5, 0, - 4/5) (- 9/5)) (ex_m2 1 (3/5, 0, - 4/5) (0, 0))
     (ex_state [3/5, 3/5] [0, 0] [- 4/5, - 4/5])
   = (ex_pair (0, 0, - 1) (- 1/5) (- 2) (1/5) (- 9/5), ex_state [3/5, 0] [0, 0] [- 4/5, - 1])"
  by (simp add: run_simps)

lemma sinking_trial:
  "trial field_down_env (0, 0, 1) unit_matrix unit_matrix (kBTBohr field_down_env)
     ((0, 0, 1/5), sinking_state, sinking_draws)
   = Inr ((0, 0, 1/5), ex_state [3/5, 0] [0, 0] [- 4/5, - 1], [0])"
  by (simp add: run_simps)

lemma opposed_first_move:
  "first_move free_env unit_matrix opposed_state opposed_draws
   = Inr (ex_m1 (3/5, 0, - 4/5) (0, 0, 1) 0, ex_state [0, - 3/5] [0, 0] [1, 4/5], [1/2, 1/2])"
  by (simp add: run_simps)

lemma opposed_second_move:
  "second_move free_env unit_matrix (ex_m1 (3/5, 0, - 4/5) (0, 0, 1) 0)
     (ex_state [0, - 3/5] [0, 0] [1, 4/5]) [1/2, 1/2]
   = Inr (ex_m2 1 (- 3/5, 0, 4/5) (0, 0), [1/2])"
  by (simp add: run_simps)



lemma free_grnd: "grnd free_env [1/2] = (1/2, [])"
  by (simp add: run_simps)

lemma field_down_grnd: "grnd field_down_env [0] = (0, [])"
  by (simp add: run_simps)

lemma tilted_sweep_entry:
  "sweep_entry free_env tilted_state = Inr ((0, 0, 8/5), tilted_state)"
  by (simp add: sweep_entry_def sum_spins_def is_3x3_def free_env_def ex_env_def
      tilted_state_def ex_state_def unit_matrix_def Let_def upt_conv_Cons)

lemmas run2 = run_simps boundary_draws_def cancel_draws_def cancelled_m1_def

lemma boundary_first_move:
  "first_move free_env unit_matrix tilted_state boundary_draws
   = Inr (ex_m1 (3/5, 0, 4/5) (- 1, 0, 0) 0, ex_state [- 1, - 3/5] [0, 0] [0, 4/5], [1/2])"
  by (simp add: run2)

lemma boundary_second_move:
  "second_move free_env unit_matrix (ex_m1 (3/5, 0, 4/5) (- 1, 0, 0) 0)
     (ex_state [- 1, - 3/5] [0, 0] [0, 4/5]) [1/2]
   = Inr (ex_m2 1 (- 3/5, 0, 4/5) (1, 0), [])"
  by (simp add: run2)

lemma cancel_first_move:
  "first_move free_env unit_matrix tilted_state cancel_draws
   = Inr (cancelled_m1, ex_state [0, - 3/5] [0, 0] [0, 4/5], [1/2])"
  by (simp add: run2)

lemma cancel_second_move:
  "second_move free_env unit_matrix cancelled_m1 (ex_state [0, - 3/5] [0, 0] [0, 4/5]) [1/2]
   = Inr (ex_m2 1 (- 3/5, 0, 4/5) (0, 0), [])"
  by (simp add: run2)

lemma cancel_trial:
  "trial free_env (0, 0, 1) unit_matrix unit_matrix (kBTBohr free_env)
     ((0, 0, 8/5), tilted_state, cancel_draws)
   = Inr ((0, 0, 8/5), count_total (count_sphere_reject tilted_state), [])"
  by (simp add: run2)





subsection \<open>The general statements at the concrete runs\<close>

theorem metropolis_test_witness:
  "probability (kBTBohr free_env) (ex_m2 1 (- 3/5, 0, 4/5) (0, 0))
     (ex_pair (0, 0, 1) 0 0 (8/5) 2) = Num (5/4)
   \<and> trial free_env (0, 0, 1) unit_matrix unit_matrix (kBTBohr free_env)
       ((0, 0, 8/5), tilted_state, tilted_draws)
     = Inr ((0, 0, 2), count_total (count_success (ex_state [0, 0] [0, 0] [1, 1])), [])"
proof -
  have h: "spin1_norm2 (ex_m1 (3/5, 0, 4/5) (0, 0, 1) 0) \<noteq> 0"
      "in_plane2 (ex_m2 1 (- 3/5, 0, 4/5) (0, 0)) < 1"
      "atom_number1 (ex_m1 (3/5, 0, 4/5) (0, 0, 1) 0)
         \<noteq> atom_number2 (ex_m2 1 (- 3/5, 0, 4/5) (0, 0))"
      "\<not> delta_energy21 (ex_pair (0, 0, 1) 0 0 (8/5) 2) < 0"
      "0 < temperature free_env"
      "Mz_old (ex_pair (0, 0, 1) 0 0 (8/5) 2) \<noteq> 0"
    by (simp_all add: ex_m1_def ex_m2_def ex_pair_def in_plane2_def free_env_def ex_env_def)
  show ?thesis
    using metropolis_test [OF tilted_first_move tilted_second_move h(1-3) tilted_pair_move
        h(4) free_grnd h(5,6)]
    by (simp add: Let_def ex_m1_def ex_m2_def ex_pair_def M_moved_def vadd_def vsub_def
        power2_eq_square)
qed

theorem sphere_reject_characterised_witness:
  "trial free_env (0, 0, 1) unit_matrix unit_matrix (kBTBohr free_env)
       ((0, 0, 8/5), tilted_state, boundary_draws)
     = Inr ((0, 0, 8/5), count_total (count_sphere_reject tilted_state), [])
   \<and> in_plane2 (ex_m2 1 (- 3/5, 0, 4/5) (1, 0)) = 1
   \<and> trial free_env (0, 0, 1) unit_matrix unit_matrix (kBTBohr free_env)
       ((0, 0, 8/5), tilted_state, repeat_draws)
     = Inr ((0, 0, 8/5), count_total (count_sphere_reject tilted_state), [])
   \<and> trial free_env (0, 0, 1) unit_matrix unit_matrix (kBTBohr free_env)
       ((0, 0, 8/5), tilted_state, cancel_draws)
     = Inr ((0, 0, 8/5), count_total (count_sphere_reject tilted_state), [])
   \<and> (case trial free_env (0, 0, 1) unit_matrix unit_matrix (kBTBohr free_env)
             ((0, 0, 8/5), tilted_state, tilted_draws) of
         Inl e \<Rightarrow> False
       | Inr (M', st', r') \<Rightarrow> sphere_reject st' = sphere_reject tilted_state)
   \<and> 0 < 1 - in_plane2 (ex_m2 1 (- 3/5, 0, 4/5) (0, 0))
   \<and> snd (snd (spin2_fin_mvd (ex_pair (0, 0, 1) 0 0 (8/5) 2))) \<noteq> 0"
proof -
  have edge: "in_plane2 (ex_m2 1 (- 3/5, 0, 4/5) (1, 0)) = 1"
    by (simp add: ex_m2_def in_plane2_def)
  have same: "atom_number2 (ex_m2 0 (0, 0, 1) (3/5, 0))
                = atom_number1 (ex_m1 (3/5, 0, 4/5) (0, 0, 1) 0)"
    by (simp add: ex_m1_def ex_m2_def)
  have nan: "spin1_norm2 cancelled_m1 = 0"
    by (simp add: cancelled_m1_def)
  have valid: "\<not> (spin1_norm2 (ex_m1 (3/5, 0, 4/5) (0, 0, 1) 0) = 0
                  \<or> 1 \<le> in_plane2 (ex_m2 1 (- 3/5, 0, 4/5) (0, 0))
                  \<or> atom_number2 (ex_m2 1 (- 3/5, 0, 4/5) (0, 0))
                      = atom_number1 (ex_m1 (3/5, 0, 4/5) (0, 0, 1) 0))"
    by (simp add: ex_m1_def ex_m2_def in_plane2_def)
  show ?thesis
    using edge same nan valid
      sphere_reject_characterised [OF boundary_first_move boundary_second_move,
        of "(0, 0, 1)" unit_matrix "kBTBohr free_env" "(0, 0, 8/5)"]
      sphere_reject_characterised [OF repeat_first_move repeat_second_move,
        of "(0, 0, 1)" unit_matrix "kBTBohr free_env" "(0, 0, 8/5)"]
      sphere_reject_characterised [OF cancel_first_move cancel_second_move,
        of "(0, 0, 1)" unit_matrix "kBTBohr free_env" "(0, 0, 8/5)"]
      sphere_reject_characterised [OF tilted_first_move tilted_second_move,
        of "(0, 0, 1)" unit_matrix "kBTBohr free_env" "(0, 0, 8/5)"]
    unfolding tilted_pair_move by simp
qed


theorem lower_energy_kept_else_tested_witness:
  "delta_energy21 (ex_pair (0, 0, - 1) (- 1/5) (- 2) (1/5) (- 9/5)) < 0
   \<and> (case trial field_down_env (0, 0, 1) unit_matrix unit_matrix (kBTBohr field_down_env)
             ((0, 0, 1/5), sinking_state, sinking_draws) of
         Inl e \<Rightarrow> False
       | Inr (M', st', r') \<Rightarrow>
           get_spin st' 0 = (3/5, 0, - 4/5) \<and> get_spin st' 1 = (0, 0, - 1) \<and> r' = [0])"
proof -
  have h: "spin1_norm2 (ex_m1 (0, 0, 1) (3/5, 0, - 4/5) (- 9/5)) \<noteq> 0"
      "in_plane2 (ex_m2 1 (3/5, 0, - 4/5) (0, 0)) < 1"
      "atom_number1 (ex_m1 (0, 0, 1) (3/5, 0, - 4/5) (- 9/5))
         \<noteq> atom_number2 (ex_m2 1 (3/5, 0, - 4/5) (0, 0))"
      "delta_energy21 (ex_pair (0, 0, - 1) (- 1/5) (- 2) (1/5) (- 9/5)) < 0"
    by (simp_all add: ex_m1_def ex_m2_def ex_pair_def in_plane2_def)
  show ?thesis
    using h(4) lower_energy_kept_else_tested [OF sinking_first_move sinking_second_move h(1-3)
        sinking_pair_move field_down_grnd, where kB = "kBTBohr field_down_env"]
    by (simp add: ex_m1_def ex_m2_def ex_pair_def split: sum.splits prod.splits)
qed

theorem sweep_starts_from_spin_sum_witness:
  "sweep_entry free_env tilted_state = Inr ((0, 0, 8/5), tilted_state)
   \<and> (0, 0, 8/5) = (sum_list (take 2 (x_spin_array tilted_state)),
                     sum_list (take 2 (y_spin_array tilted_state)),
                     sum_list (take 2 (z_spin_array tilted_state)))"
  using tilted_sweep_entry sweep_starts_from_spin_sum [OF tilted_sweep_entry]
  by (simp add: free_env_def ex_env_def)

subsection \<open>Where the loop body departs from the specification\<close>

text \<open>
  Only the \<open>continue\<close> of line 365 leaves a trial uncounted, and a trial that is counted
  leaves \<open>M_other\<close> equal to the sum of the spins if it was so before.
\<close>

lemma counted_trial_keeps_M:
  assumes "trial env pv pm pm_tp kB (M, st, r) = Inr (M', st', r')"
    and "M = total_spin st"
    and "mc_total st' = mc_total st + 1"
  shows "M' = total_spin st'"
  using assms(1)
proof (cases rule: trial_outcomes)
  case (sphere m1 st1 r1 m2)
  with assms(2) show ?thesis by simp
next
  case (continue m1 st1 r1 m2 p)
  with assms(3) show ?thesis by simp
next
  case (accept m1 st1 r1 m2 r2 p st2 u)
  with assms(2) total_spin_moved[OF accept(1,2,5)] show ?thesis by simp
next
  case (reject m1 st1 r1 m2 r2 p st2 u)
  with assms(2) show ?thesis by simp
qed

lemma trial_counts_unless_lower_energy:
  assumes "trial env pv pm pm_tp kB (M, st, r) = Inr (M', st', r')"
  shows "mc_total st' = mc_total st + 1
       \<or> mc_total st' = mc_total st \<and> mc_success st' = mc_success st \<and> M' = M"
  using assms
proof (cases rule: trial_outcomes)
  case (sphere m1 st1 r1 m2)
  then show ?thesis by (simp add: count_total_def count_sphere_reject_def)
next
  case (continue m1 st1 r1 m2 p)
  then show ?thesis by simp
next
  case (accept m1 st1 r1 m2 r2 p st2 u)
  then show ?thesis by (simp add: count_total_def count_success_def)
next
  case (reject m1 st1 r1 m2 r2 p st2 u)
  then show ?thesis by (simp add: count_total_def count_energy_reject_def)
qed

text \<open>
  C1, as stated, fails. In \<open>sinking_state\<close> under a field along \<open>-z\<close> the pair move is
  valid and lowers the energy, and its \<open>Mz_new\<close> is negative, so the test
  \<open>Mz_new \<ge> 0 and P \<ge> grnd()\<close> would fail; the trial keeps both new spins all the same,
  and the number prepared for the test is still in the generator.
\<close>

theorem lower_energy_untested_counterexample:
  "pair_move field_down_env (0, 0, 1) unit_matrix (0, 0, 1/5)
       (ex_m1 (0, 0, 1) (3/5, 0, - 4/5) (- 9/5)) (ex_m2 1 (3/5, 0, - 4/5) (0, 0))
       (ex_state [3/5, 3/5] [0, 0] [- 4/5, - 4/5])
     = (ex_pair (0, 0, - 1) (- 1/5) (- 2) (1/5) (- 9/5), ex_state [3/5, 0] [0, 0] [- 4/5, - 1])
   \<and> delta_energy21 (ex_pair (0, 0, - 1) (- 1/5) (- 2) (1/5) (- 9/5)) < 0
   \<and> \<not> 0 \<le> Mz_new (ex_pair (0, 0, - 1) (- 1/5) (- 2) (1/5) (- 9/5))
   \<and> trial field_down_env (0, 0, 1) unit_matrix unit_matrix (kBTBohr field_down_env)
       ((0, 0, 1/5), sinking_state, sinking_draws)
     = Inr ((0, 0, 1/5), ex_state [3/5, 0] [0, 0] [- 4/5, - 1], [0])
   \<and> x_spin_array (ex_state [3/5, 0] [0, 0] [- 4/5, - 1]) \<noteq> x_spin_array sinking_state"
proof -
  have a: "delta_energy21 (ex_pair (0, 0, - 1) (- 1/5) (- 2) (1/5) (- 9/5)) < 0"
    "\<not> 0 \<le> Mz_new (ex_pair (0, 0, - 1) (- 1/5) (- 2) (1/5) (- 9/5))"
    by (simp_all add: ex_pair_def)
  have b: "x_spin_array (ex_state [3/5, 0] [0, 0] [- 4/5, - 1]) \<noteq> x_spin_array sinking_state"
    by (simp add: ex_state_def sinking_state_def)
  show ?thesis
    by (intro conjI sinking_pair_move a sinking_trial b)
qed

text \<open>
  C8, as stated, fails. Under \<open>cancel_draws\<close> the Gaussian step is the opposite of the
  first spin, \<open>sqrt_ran\<close> is \<open>1/0\<close> and the normalised spin is \<open>0 * inf\<close>, a NaN, and so are
  \<open>spin2_fin_mvd[0]\<close> and \<open>[1]\<close>. Their squares do not sum to at least one (no comparison
  with a NaN holds; the reals the model carries there sum to zero) and the two atoms
  differ, yet the trial is a sphere reject, the test \<open>< 1.0\<close> of line 327 being false too.
\<close>

theorem cancelled_step_sphere_reject_counterexample:
  "first_move free_env unit_matrix tilted_state cancel_draws
     = Inr (cancelled_m1, ex_state [0, - 3/5] [0, 0] [0, 4/5], [1/2])
   \<and> second_move free_env unit_matrix cancelled_m1 (ex_state [0, - 3/5] [0, 0] [0, 4/5]) [1/2]
     = Inr (ex_m2 1 (- 3/5, 0, 4/5) (0, 0), [])
   \<and> \<not> (1 \<le> in_plane2 (ex_m2 1 (- 3/5, 0, 4/5) (0, 0))
          \<or> atom_number2 (ex_m2 1 (- 3/5, 0, 4/5) (0, 0)) = atom_number1 cancelled_m1)
   \<and> trial free_env (0, 0, 1) unit_matrix unit_matrix (kBTBohr free_env)
       ((0, 0, 8/5), tilted_state, cancel_draws)
     = Inr ((0, 0, 8/5), count_total (count_sphere_reject tilted_state), [])"
proof -
  have a: "\<not> (1 \<le> in_plane2 (ex_m2 1 (- 3/5, 0, 4/5) (0, 0))
          \<or> atom_number2 (ex_m2 1 (- 3/5, 0, 4/5) (0, 0)) = atom_number1 cancelled_m1)"
    by (simp add: ex_m2_def cancelled_m1_def in_plane2_def)
  show ?thesis
    by (intro conjI cancel_first_move cancel_second_move a cancel_trial)
qed


text \<open>
  C2, the code at a failing input. A sweep over two atoms makes two trials; here the
  first lowers the energy and leaves by the \<open>continue\<close> of line 365, past the increment of
  line 400, and the second is accepted: \<open>mc_total\<close> goes from 0 to 1, not to 2.
\<close>

theorem sweep_of_two_counts_one:
  "num_atoms field_up_env = 2
   \<and> mc_total tilted_state = 0
   \<and> ConstrainedMonteCarlo field_up_env tilted_state sweep_draws
     = Inr (0, (ex_state [0, 0] [0, 0] [1, 1])\<lparr>mc_success := 1, mc_total := 1\<rparr>, [])"
  by (simp add: ConstrainedMonteCarlo_def sweep_entry_def sum_spins_def is_3x3_def
      copy_matrix_def copy_vector_def numeral_2_eq_2 run_simps upt_conv_Cons)

text \<open>
  C3, the code at a failing input. \<open>M_other\<close> is the sum of the spins, \<open>(0, 0, 8/5)\<close>,
  before the trial; the trial lowers the energy and leaves by the \<open>continue\<close> of line 365
  with both new spins in the arrays and \<open>M_other\<close> as it was, while the spins now sum to
  \<open>(0, 0, 2)\<close>.
\<close>

theorem lower_energy_move_leaves_M_stale:
  "total_spin tilted_state = (0, 0, 8/5)
   \<and> trial field_up_env (0, 0, 1) unit_matrix unit_matrix (kBTBohr field_up_env)
       ((0, 0, 8/5), tilted_state, tilted_draws)
     = Inr ((0, 0, 8/5), ex_state [0, 0] [0, 0] [1, 1], [1/2])
   \<and> total_spin (ex_state [0, 0] [0, 0] [1, 1]) = (0, 0, 2)"
  by (simp add: total_spin_def run_simps)

end
